theory Spec2Isabelle
  imports Main "HOL-Library.Multiset"
begin

section \<open>Values of the runtime\<close>

text \<open>
  The server is a JavaScript program: what it reads from its database file and from the
  completion service are JSON values, and a property that is not there reads as
  \<open>undefined\<close>. A string is the sequence of its code units (one \<open>char\<close> stands for
  one unit); only the truthiness of a number is ever looked at, so a number is kept as an
  integer.
\<close>

datatype json =
    JNull
  | JBool bool
  | JNum int
  | JStr string
  | JArr "json list"
  | JObj "(string \<times> json) list"

text \<open>A JavaScript value as the handlers see it: \<open>None\<close> is \<open>undefined\<close>.\<close>

type_synonym jsval = "json option"

section \<open>Data model\<close>

text \<open>
  The objects of \<open>db.json\<close>. The field \<open>id\<close> of a conversation is called \<open>id_c\<close>
  here. The content of a message is whatever value was pushed: the text of the user, or
  what \<open>data.content[0].text\<close> gave for the assistant.
\<close>

record message =
  role :: string
  content :: jsval

record conversation =
  id_c :: string
  title :: string
  messages :: "message list"
  createdAt :: string
  updatedAt :: string

record db =
  conversations :: "conversation list"

section \<open>The document on disk\<close>

text \<open>
  \<open>JSON.stringify\<close> writes the properties of an object in insertion order and leaves out
  a property whose value is \<open>undefined\<close>; an array keeps its order.
\<close>

definition encode_message :: "message \<Rightarrow> json" where
  "encode_message m =
     JObj ((''role'', JStr (role m)) #
           (case content m of None \<Rightarrow> [] | Some v \<Rightarrow> [(''content'', v)]))"

definition encode_conversation :: "conversation \<Rightarrow> json" where
  "encode_conversation c =
     JObj [(''id'', JStr (id_c c)),
           (''title'', JStr (title c)),
           (''messages'', JArr (map encode_message (messages c))),
           (''createdAt'', JStr (createdAt c)),
           (''updatedAt'', JStr (updatedAt c))]"

definition encode_db :: "db \<Rightarrow> json" where
  "encode_db d = JObj [(''conversations'', JArr (map encode_conversation (conversations d)))]"

text \<open>
  Reading a document back is property access: \<open>m.role\<close>, \<open>c.messages\<close>,
  \<open>db.conversations\<close>. A document is of the storage layout when it is the
  document of some store; the handlers are modelled on such documents.
\<close>

definition decode_message :: "json \<Rightarrow> message option" where
  "decode_message j =
     (case j of
        JObj kvs \<Rightarrow>
          (case map_of kvs ''role'' of
             Some (JStr r) \<Rightarrow>
               (let m = \<lparr>role = r, content = map_of kvs ''content''\<rparr>
                in if encode_message m = j then Some m else None)
           | _ \<Rightarrow> None)
      | _ \<Rightarrow> None)"

definition decode_conversation :: "json \<Rightarrow> conversation option" where
  "decode_conversation j =
     (case j of
        JObj kvs \<Rightarrow>
          (case (map_of kvs ''id'', map_of kvs ''title'', map_of kvs ''messages'',
                 map_of kvs ''createdAt'', map_of kvs ''updatedAt'') of
             (Some (JStr i), Some (JStr t), Some (JArr ms), Some (JStr ca), Some (JStr ua)) \<Rightarrow>
               (case those (map decode_message ms) of
                  Some ms' \<Rightarrow>
                    (let c = \<lparr>id_c = i, title = t, messages = ms',
                              createdAt = ca, updatedAt = ua\<rparr>
                     in if encode_conversation c = j then Some c else None)
                | None \<Rightarrow> None)
           | _ \<Rightarrow> None)
      | _ \<Rightarrow> None)"

definition decode_db :: "json \<Rightarrow> db option" where
  "decode_db j =
     (case j of
        JObj kvs \<Rightarrow>
          (case map_of kvs ''conversations'' of
             Some (JArr cs) \<Rightarrow>
               (case those (map decode_conversation cs) of
                  Some cs' \<Rightarrow>
                    (let d = \<lparr>conversations = cs'\<rparr>
                     in if encode_db d = j then Some d else None)
                | None \<Rightarrow> None)
           | _ \<Rightarrow> None)
      | _ \<Rightarrow> None)"

section \<open>Persistence helpers\<close>

text \<open>
  The state of \<open>DB_FILE\<close>: not there; there but \<open>readFileSync\<close> throws; text that
  \<open>JSON.parse\<close> rejects; or the text of a JSON value. \<open>JSON.parse\<close> and
  \<open>JSON.stringify\<close> belong to the runtime: a file written from the value \<open>j\<close> is the
  file that parses to \<open>j\<close>. The disk also counts the writes made to the file, so that
  a handler that saves is told from one that does not. A write is taken to succeed.
\<close>

datatype file_state = Missing | Unreadable | Garbage | Doc json

record disk =
  contents :: file_state
  writes :: nat

datatype io_error = ReadError | SyntaxError

datatype file_text = Unparsable | TextOf json

definition existsSync :: "disk \<Rightarrow> bool" where
  "existsSync f = (contents f \<noteq> Missing)"

definition readFileSync :: "disk \<Rightarrow> io_error + file_text" where
  "readFileSync f =
     (case contents f of
        Missing \<Rightarrow> Inl ReadError
      | Unreadable \<Rightarrow> Inl ReadError
      | Garbage \<Rightarrow> Inr Unparsable
      | Doc j \<Rightarrow> Inr (TextOf j))"

definition JSON_parse :: "file_text \<Rightarrow> io_error + json" where
  "JSON_parse t = (case t of Unparsable \<Rightarrow> Inl SyntaxError | TextOf j \<Rightarrow> Inr j)"

definition JSON_stringify :: "json \<Rightarrow> file_text" where
  "JSON_stringify j = TextOf j"

definition writeFileSync :: "disk \<Rightarrow> file_text \<Rightarrow> disk" where
  "writeFileSync f t =
     \<lparr>contents = (case t of TextOf j \<Rightarrow> Doc j | Unparsable \<Rightarrow> Garbage), writes = Suc (writes f)\<rparr>"

definition empty_document :: json where
  "empty_document = JObj [(''conversations'', JArr [])]"

text \<open>\<open>loadDb\<close>: the \<open>try\<close> block, and the \<open>catch\<close> that answers the empty collection.\<close>

definition loadDb_try :: "disk \<Rightarrow> io_error + json" where
  "loadDb_try f =
     (case readFileSync f of
        Inl e \<Rightarrow> Inl e
      | Inr t \<Rightarrow> JSON_parse t)"

definition loadDb :: "disk \<Rightarrow> json" where
  "loadDb f =
     (if \<not> existsSync f then empty_document
      else (case loadDb_try f of
              Inr j \<Rightarrow> j
            | Inl e \<Rightarrow> empty_document))"

definition saveDb :: "disk \<Rightarrow> json \<Rightarrow> disk" where
  "saveDb f data = writeFileSync f (JSON_stringify data)"

text \<open>The store a handler works on after \<open>loadDb()\<close>, when the document is of the layout.\<close>

definition load_store :: "disk \<Rightarrow> db option" where
  "load_store f = decode_db (loadDb f)"

definition save_store :: "disk \<Rightarrow> db \<Rightarrow> disk" where
  "save_store f d = saveDb f (encode_db d)"

section \<open>Reading a JavaScript value\<close>

datatype failure =
    Missing_API_Key
  | Fetch_rejected string
  | Body_rejected
  | Api_error json
  | TypeError

text \<open>
  \<open>v.k\<close> for a key \<open>k\<close> that no prototype defines (\<open>error\<close>, \<open>message\<close>,
  \<open>content\<close>, \<open>text\<close>): reading a property of \<open>undefined\<close> or \<open>null\<close> throws a
  TypeError, an object answers its own property, every other value answers \<open>undefined\<close>.
\<close>

definition get_prop :: "jsval \<Rightarrow> string \<Rightarrow> failure + jsval" where
  "get_prop v k =
     (case v of
        None \<Rightarrow> Inl TypeError
      | Some JNull \<Rightarrow> Inl TypeError
      | Some (JObj kvs) \<Rightarrow> Inr (map_of kvs k)
      | Some _ \<Rightarrow> Inr None)"

definition nullish :: "jsval \<Rightarrow> bool" where
  "nullish v = (v = None \<or> v = Some JNull)"

text \<open>\<open>v?.k\<close>: \<open>undefined\<close> when \<open>v\<close> is \<open>undefined\<close> or \<open>null\<close>.\<close>

definition optional_prop :: "jsval \<Rightarrow> string \<Rightarrow> failure + jsval" where
  "optional_prop v k = (if nullish v then Inr None else get_prop v k)"

text \<open>\<open>v[0]\<close>: the first element of an array, the first unit of a string.\<close>

definition get_index0 :: "jsval \<Rightarrow> failure + jsval" where
  "get_index0 v =
     (case v of
        None \<Rightarrow> Inl TypeError
      | Some JNull \<Rightarrow> Inl TypeError
      | Some (JArr xs) \<Rightarrow> Inr (case xs of [] \<Rightarrow> None | x # _ \<Rightarrow> Some x)
      | Some (JStr s) \<Rightarrow> Inr (case s of [] \<Rightarrow> None | c # _ \<Rightarrow> Some (JStr [c]))
      | Some (JObj kvs) \<Rightarrow> Inr (map_of kvs ''0'')
      | Some _ \<Rightarrow> Inr None)"

definition truthy :: "jsval \<Rightarrow> bool" where
  "truthy v =
     (case v of
        None \<Rightarrow> False
      | Some JNull \<Rightarrow> False
      | Some (JBool b) \<Rightarrow> b
      | Some (JNum n) \<Rightarrow> n \<noteq> 0
      | Some (JStr s) \<Rightarrow> s \<noteq> []
      | Some _ \<Rightarrow> True)"

section \<open>Responses\<close>

datatype http_error =
    Bad_request string
  | Not_found string
  | Internal_error failure
  | Outside_layout

text \<open>
  \<open>Bad_request\<close> is status 400, \<open>Not_found\<close> 404, \<open>Internal_error\<close> 500, each with
  its \<open>error\<close> text or cause. \<open>Outside_layout\<close> is no response of the server: it marks
  a database file that parses but is not a document of the storage layout, on which the
  handlers are not modelled.
\<close>

record summary =
  sum_id :: string
  sum_title :: string
  sum_updatedAt :: string

record turn_reply =
  reply_role :: string
  reply_content :: jsval
  reply_conversationId :: string
  reply_title :: string

datatype deleted = Success

section \<open>Library operations on arrays\<close>

text \<open>
  \<open>Array.prototype.sort\<close> with a comparator is stable: \<open>a\<close> stays before a later \<open>b\<close>
  unless \<open>cmp a b > 0\<close>. With a consistent comparator its result is that of stable
  insertion.
\<close>

fun sort_insert :: "('a \<Rightarrow> 'a \<Rightarrow> int) \<Rightarrow> 'a \<Rightarrow> 'a list \<Rightarrow> 'a list" where
  "sort_insert cmp x [] = [x]"
| "sort_insert cmp x (y # ys) =
     (if cmp x y \<le> 0 then x # y # ys else y # sort_insert cmp x ys)"

definition Array_sort :: "('a \<Rightarrow> 'a \<Rightarrow> int) \<Rightarrow> 'a list \<Rightarrow> 'a list" where
  "Array_sort cmp xs = foldr (sort_insert cmp) xs []"

text \<open>
  \<open>find\<close> answers the first matching object itself, so an assignment to one of its
  fields is seen in the array: the first match is replaced in place.
\<close>

fun update_first :: "('a \<Rightarrow> bool) \<Rightarrow> ('a \<Rightarrow> 'a) \<Rightarrow> 'a list \<Rightarrow> 'a list" where
  "update_first P f [] = []"
| "update_first P f (x # xs) = (if P x then f x # xs else x # update_first P f xs)"

text \<open>
  \<open>Number.prototype.toString\<close> on a non-negative integer: its decimal digits. (A time
  value is far below \<open>10^21\<close>, where JavaScript changes to the exponent form.)
\<close>

definition digit :: "nat \<Rightarrow> char" where
  "digit n = ''0123456789'' ! n"

fun toString :: "nat \<Rightarrow> string" where
  "toString n = (if n < 10 then [digit n] else toString (n div 10) @ [digit (n mod 10)])"

declare toString.simps [simp del]

section \<open>API endpoints\<close>

text \<open>
  Each handler takes the state of the database file and answers its response with the
  state of the file afterwards. What a handler reads from its environment is an argument:
  \<open>Date.now()\<close> (milliseconds since the epoch), the text of
  \<open>new Date().toISOString()\<close>, the numeric value \<open>date_value\<close> of \<open>new Date(s)\<close>,
  the API key of the environment and the answer of \<open>fetch\<close>. The request body is
  typed as the routes document it: \<open>title\<close> and \<open>message\<close> are a string or absent.
  A timestamp of the store is text written by \<open>toISOString\<close>, so \<open>new Date\<close> of it
  has a time value (it is not \<open>NaN\<close>).
\<close>

subsection \<open>1. Get all conversations (summary only)\<close>

definition summarise :: "conversation \<Rightarrow> summary" where
  "summarise c = \<lparr>sum_id = id_c c, sum_title = title c, sum_updatedAt = updatedAt c\<rparr>"

definition by_updatedAt_desc :: "(string \<Rightarrow> int) \<Rightarrow> summary \<Rightarrow> summary \<Rightarrow> int" where
  "by_updatedAt_desc date_value a b = date_value (sum_updatedAt b) - date_value (sum_updatedAt a)"

definition listSummaries :: "(string \<Rightarrow> int) \<Rightarrow> disk \<Rightarrow> (http_error + summary list) \<times> disk" where
  "listSummaries date_value f =
     (case load_store f of
        None \<Rightarrow> (Inl Outside_layout, f)
      | Some d \<Rightarrow>
          (Inr (Array_sort (by_updatedAt_desc date_value) (map summarise (conversations d))), f))"

subsection \<open>2. Get single conversation\<close>

definition getConversation :: "disk \<Rightarrow> string \<Rightarrow> (http_error + conversation) \<times> disk" where
  "getConversation f i =
     (case load_store f of
        None \<Rightarrow> (Inl Outside_layout, f)
      | Some d \<Rightarrow>
          (case find (\<lambda>c. id_c c = i) (conversations d) of
             None \<Rightarrow> (Inl (Not_found ''Not found''), f)
           | Some conversation \<Rightarrow> (Inr conversation, f)))"

subsection \<open>3. Create new conversation\<close>

definition createConversation ::
  "disk \<Rightarrow> nat \<Rightarrow> string \<Rightarrow> string \<Rightarrow> (http_error + conversation) \<times> disk" where
  "createConversation f now created updated =
     (case load_store f of
        None \<Rightarrow> (Inl Outside_layout, f)
      | Some d \<Rightarrow>
          (let newConv = \<lparr>id_c = toString now, title = ''New Chat'', messages = [],
                           createdAt = created, updatedAt = updated\<rparr>;
               d' = d\<lparr>conversations := conversations d @ [newConv]\<rparr>
           in (Inr newConv, save_store f d')))"

text \<open>A run of create requests, one after the other, with the responses in order.\<close>

fun create_seq ::
  "disk \<Rightarrow> (nat \<times> string \<times> string) list \<Rightarrow> (http_error + conversation) list \<times> disk" where
  "create_seq f [] = ([], f)"
| "create_seq f ((now, created, updated) # ts) =
     (let (r, f') = createConversation f now created updated;
          (rs, f'') = create_seq f' ts
      in (r # rs, f''))"

subsection \<open>4. Update conversation (rename)\<close>

definition renameConversation ::
  "disk \<Rightarrow> string \<Rightarrow> string option \<Rightarrow> string \<Rightarrow> (http_error + conversation) \<times> disk" where
  "renameConversation f i body_title now =
     (case load_store f of
        None \<Rightarrow> (Inl Outside_layout, f)
      | Some d \<Rightarrow>
          (case find (\<lambda>c. id_c c = i) (conversations d) of
             None \<Rightarrow> (Inl (Not_found ''Not found''), f)
           | Some conv \<Rightarrow>
               (case body_title of
                  None \<Rightarrow> (Inr conv, f)
                | Some t \<Rightarrow>
                    if t \<noteq> [] then
                      (let conv' = conv\<lparr>title := t, updatedAt := now\<rparr>;
                           d' = d\<lparr>conversations :=
                                   update_first (\<lambda>c. id_c c = i) (\<lambda>c. conv') (conversations d)\<rparr>
                       in (Inr conv', save_store f d'))
                    else (Inr conv, f))))"

subsection \<open>5. Delete conversation\<close>

definition deleteConversation :: "disk \<Rightarrow> string \<Rightarrow> (http_error + deleted) \<times> disk" where
  "deleteConversation f i =
     (case load_store f of
        None \<Rightarrow> (Inl Outside_layout, f)
      | Some d \<Rightarrow>
          (let initialLength = length (conversations d);
               d' = d\<lparr>conversations := filter (\<lambda>c. id_c c \<noteq> i) (conversations d)\<rparr>
           in if length (conversations d') = initialLength
              then (Inl (Not_found ''Not found''), f)
              else (Inr Success, save_store f d')))"

subsection \<open>6. Save message to conversation (and proxy to the completion service)\<close>

text \<open>
  What \<open>await fetch(...)\<close> and \<open>await response.json()\<close> give: the request is
  rejected (no response at all), or there is a response with its \<open>ok\<close> flag and a body
  that is a JSON value, or not (\<open>None\<close>: \<open>response.json()\<close> is rejected).
\<close>

datatype fetch_result = Rejected string | Response bool "json option"

text \<open>\<open>data.error?.message || 'API Error'\<close>, thrown; the cause keeps the value.\<close>

definition api_error :: "json \<Rightarrow> failure" where
  "api_error data =
     (case get_prop (Some data) ''error'' of
        Inl e \<Rightarrow> e
      | Inr err \<Rightarrow>
          (case optional_prop err ''message'' of
             Inl e \<Rightarrow> e
           | Inr m \<Rightarrow>
               (case m of
                  Some v \<Rightarrow> if truthy m then Api_error v else Api_error (JStr ''API Error'')
                | None \<Rightarrow> Api_error (JStr ''API Error''))))"

text \<open>\<open>data.content[0].text\<close>.\<close>

definition assistant_text :: "json \<Rightarrow> failure + jsval" where
  "assistant_text data =
     (case get_prop (Some data) ''content'' of
        Inl e \<Rightarrow> Inl e
      | Inr c \<Rightarrow>
          (case get_index0 c of
             Inl e \<Rightarrow> Inl e
           | Inr c0 \<Rightarrow> get_prop c0 ''text''))"

text \<open>The \<open>try\<close> block up to \<open>assistantText\<close>: \<open>Inl\<close> is what it throws.\<close>

definition complete ::
  "string option \<Rightarrow> (string \<Rightarrow> message list \<Rightarrow> fetch_result) \<Rightarrow> message list \<Rightarrow> failure + jsval" where
  "complete apiKey fetch history =
     (case apiKey of
        None \<Rightarrow> Inl Missing_API_Key
      | Some k \<Rightarrow>
          if k = [] then Inl Missing_API_Key
          else
            (case fetch k history of
               Rejected e \<Rightarrow> Inl (Fetch_rejected e)
             | Response ok body \<Rightarrow>
                 (case body of
                    None \<Rightarrow> Inl Body_rejected
                  | Some data \<Rightarrow>
                      if \<not> ok then Inl (api_error data)
                      else assistant_text data)))"

definition derive_title :: "string \<Rightarrow> string" where
  "derive_title message = take 30 message @ (if length message > 30 then ''...'' else [])"

definition append_user :: "string \<Rightarrow> conversation \<Rightarrow> conversation" where
  "append_user message conv =
     (let conv1 = conv\<lparr>messages := messages conv @ [\<lparr>role = ''user'', content = Some (JStr message)\<rparr>]\<rparr>
      in if length (messages conv1) = 1 \<and> title conv1 = ''New Chat''
         then conv1\<lparr>title := derive_title message\<rparr>
         else conv1)"

definition append_assistant :: "jsval \<Rightarrow> string \<Rightarrow> conversation \<Rightarrow> conversation" where
  "append_assistant assistantText now conv =
     conv\<lparr>messages := messages conv @ [\<lparr>role = ''assistant'', content = assistantText\<rparr>],
          updatedAt := now\<rparr>"

text \<open>
  The handler is \<open>async\<close>. It runs without interruption from the request to its first
  \<open>await\<close>: it checks the message, loads the store, finds the conversation, appends
  the user message and derives the title, all in memory. It then waits for \<open>fetch\<close>
  and for \<open>response.json()\<close>, and while it waits the server serves other requests,
  which may write the file. When it resumes it appends the answer and \<open>saveDb(db)\<close>
  writes the collection it loaded before the wait.
\<close>

text \<open>Up to the \<open>try\<close> block: a response, or the loaded store and the conversation.\<close>

definition submitTurn_load ::
  "disk \<Rightarrow> string \<Rightarrow> string option \<Rightarrow> http_error + (db \<times> conversation)" where
  "submitTurn_load f conversationId body_message =
     (case body_message of
        None \<Rightarrow> Inl (Bad_request ''Message required'')
      | Some message \<Rightarrow>
          if message = [] then Inl (Bad_request ''Message required'')
          else
            (case load_store f of
               None \<Rightarrow> Inl Outside_layout
             | Some d \<Rightarrow>
                 (case find (\<lambda>c. id_c c = conversationId) (conversations d) of
                    None \<Rightarrow> Inl (Not_found ''Conversation not found'')
                  | Some conv \<Rightarrow> Inr (d, append_user message conv))))"

text \<open>
  The \<open>try\<close> block and its \<open>catch\<close>, on the disk \<open>g\<close> as it is when the handler
  resumes: the save writes the store \<open>d\<close> loaded before the wait, with the
  conversation of the turn replaced in it.
\<close>

definition submitTurn_settle ::
  "string option \<Rightarrow> (string \<Rightarrow> message list \<Rightarrow> fetch_result) \<Rightarrow> string \<Rightarrow> string \<Rightarrow>
   db \<Rightarrow> conversation \<Rightarrow> disk \<Rightarrow> (http_error + turn_reply) \<times> disk" where
  "submitTurn_settle apiKey fetch conversationId now d conv2 g =
     (case complete apiKey fetch (messages conv2) of
        Inl error \<Rightarrow> (Inl (Internal_error error), g)
      | Inr assistantText \<Rightarrow>
          (let conv3 = append_assistant assistantText now conv2;
               d' = d\<lparr>conversations :=
                       update_first (\<lambda>c. id_c c = conversationId)
                         (\<lambda>c. conv3) (conversations d)\<rparr>
           in (Inr \<lparr>reply_role = ''assistant'',
                    reply_content = assistantText,
                    reply_conversationId = id_c conv3,
                    reply_title = title conv3\<rparr>,
               save_store g d')))"

text \<open>
  The whole handler, with \<open>during\<close> what the requests served during its wait do to the
  disk. Without an API key the handler throws before it waits, and nothing is served
  in between.
\<close>

definition submitTurn_interleaved ::
  "string option \<Rightarrow> (string \<Rightarrow> message list \<Rightarrow> fetch_result) \<Rightarrow> (disk \<Rightarrow> disk) \<Rightarrow> disk \<Rightarrow>
   string \<Rightarrow> string option \<Rightarrow> string \<Rightarrow> (http_error + turn_reply) \<times> disk" where
  "submitTurn_interleaved apiKey fetch during f conversationId body_message now =
     (case submitTurn_load f conversationId body_message of
        Inl e \<Rightarrow> (Inl e, f)
      | Inr (d, conv2) \<Rightarrow>
          submitTurn_settle apiKey fetch conversationId now d conv2
            (if apiKey = None \<or> apiKey = Some [] then f else during f))"

text \<open>The handler when no other request is served during its wait.\<close>

definition submitTurn ::
  "string option \<Rightarrow> (string \<Rightarrow> message list \<Rightarrow> fetch_result) \<Rightarrow> disk \<Rightarrow> string \<Rightarrow>
   string option \<Rightarrow> string \<Rightarrow> (http_error + turn_reply) \<times> disk" where
  "submitTurn apiKey fetch f conversationId body_message now =
     submitTurn_interleaved apiKey fetch (\<lambda>g. g) f conversationId body_message now"

section \<open>Example stores\<close>

text \<open>Concrete states on which the theorems below are instantiated.\<close>

definition disk0 :: disk where
  "disk0 = \<lparr>contents = Missing, writes = 0\<rparr>"

definition conv1 :: conversation where
  "conv1 = \<lparr>id_c = ''1'', title = ''New Chat'', messages = [],
            createdAt = ''2024-01-01T00:00:00.000Z'', updatedAt = ''2024-01-01T00:00:00.000Z''\<rparr>"

definition store1 :: db where
  "store1 = \<lparr>conversations = [conv1]\<rparr>"

definition disk1 :: disk where
  "disk1 = save_store disk0 store1"

text \<open>Two conversations created at the same reading of the clock.\<close>

definition twin_a :: conversation where
  "twin_a = \<lparr>id_c = ''1700000000000'', title = ''New Chat'', messages = [],
             createdAt = ''2023-11-14T22:13:20.000Z'', updatedAt = ''2023-11-14T22:13:20.000Z''\<rparr>"

definition twin_b :: conversation where
  "twin_b = \<lparr>id_c = ''1700000000000'', title = ''New Chat'', messages = [],
             createdAt = ''2023-11-14T22:13:20.000Z'', updatedAt = ''2023-11-14T22:13:20.000Z''\<rparr>"

definition twin_disk :: disk where
  "twin_disk =
     snd (createConversation
            (snd (createConversation disk0 1700000000000
                    ''2023-11-14T22:13:20.000Z'' ''2023-11-14T22:13:20.000Z''))
            1700000000000 ''2023-11-14T22:13:20.000Z'' ''2023-11-14T22:13:20.000Z'')"

definition conv2 :: conversation where
  "conv2 = \<lparr>id_c = ''2'', title = ''Sorting'',
            messages = [\<lparr>role = ''user'', content = Some (JStr ''How do I sort a list?'')\<rparr>,
                        \<lparr>role = ''assistant'', content = Some (JStr ''Call sort.'')\<rparr>],
            createdAt = ''2024-01-02T00:00:00.000Z'', updatedAt = ''2024-01-03T00:00:00.000Z''\<rparr>"

definition store2 :: db where
  "store2 = \<lparr>conversations = [conv1, conv2]\<rparr>"

definition disk2 :: disk where
  "disk2 = save_store disk0 store2"

text \<open>A third conversation, last updated at the same time as the first.\<close>

definition conv3 :: conversation where
  "conv3 = \<lparr>id_c = ''3'', title = ''Parsing'', messages = [],
            createdAt = ''2024-01-01T00:00:00.000Z'', updatedAt = ''2024-01-01T00:00:00.000Z''\<rparr>"

definition store3 :: db where
  "store3 = \<lparr>conversations = [conv1, conv2, conv3]\<rparr>"

definition disk3 :: disk where
  "disk3 = save_store disk0 store3"

text \<open>The time values of the timestamps of the examples.\<close>

definition example_date :: "string \<Rightarrow> int" where
  "example_date s =
     (if s = ''2024-01-01T00:00:00.000Z'' then 1704067200000
      else if s = ''2024-01-02T00:00:00.000Z'' then 1704153600000
      else if s = ''2024-01-03T00:00:00.000Z'' then 1704240000000
      else 0)"

text \<open>A create request served while a turn waits for the completion service.\<close>

definition create_during :: "disk \<Rightarrow> disk" where
  "create_during g =
     snd (createConversation g 1700000000000
            ''2023-11-14T22:13:20.000Z'' ''2023-11-14T22:13:20.000Z'')"

text \<open>A service that answers a text block, and one whose first block carries no text.\<close>

definition reply_body :: json where
  "reply_body =
     JObj [(''content'', JArr [JObj [(''type'', JStr ''text''),
                                     (''text'', JStr ''Use two pointers...'')]])]"

definition service_ok :: "string \<Rightarrow> message list \<Rightarrow> fetch_result" where
  "service_ok k history = Response True (Some reply_body)"

definition textless_body :: json where
  "textless_body = JObj [(''content'', JArr [JObj [(''type'', JStr ''text'')]])]"

definition service_textless :: "string \<Rightarrow> message list \<Rightarrow> fetch_result" where
  "service_textless k history = Response True (Some textless_body)"

definition service_down :: "string \<Rightarrow> message list \<Rightarrow> fetch_result" where
  "service_down k history = Rejected ''connect ECONNREFUSED''"

definition overloaded_body :: json where
  "overloaded_body = JObj [(''error'', JObj [(''message'', JStr ''Overloaded'')])]"

definition service_overloaded :: "string \<Rightarrow> message list \<Rightarrow> fetch_result" where
  "service_overloaded k history = Response False (Some overloaded_body)"

definition service_empty :: "string \<Rightarrow> message list \<Rightarrow> fetch_result" where
  "service_empty k history = Response True (Some (JObj [(''content'', JArr [])]))"

section \<open>The layout round trip\<close>

lemma decode_encode_message: "decode_message (encode_message m) = Some m"
  by (cases "content m") (simp_all add: decode_message_def encode_message_def)

lemma those_decode_messages: "those (map (decode_message \<circ> encode_message) ms) = Some ms"
  by (induction ms) (simp_all add: decode_encode_message)

lemma decode_encode_conversation: "decode_conversation (encode_conversation c) = Some c"
  by (cases c) (simp add: decode_conversation_def encode_conversation_def those_decode_messages)

lemma those_decode_conversations:
  "those (map (decode_conversation \<circ> encode_conversation) cs) = Some cs"
  by (induction cs) (simp_all add: decode_encode_conversation)

lemma decode_encode_db: "decode_db (encode_db d) = Some d"
  by (cases d) (simp add: decode_db_def encode_db_def those_decode_conversations)

lemma loadDb_cases:
  "loadDb f = (case contents f of Doc j \<Rightarrow> j | _ \<Rightarrow> empty_document)"
  by (cases "contents f")
     (simp_all add: loadDb_def loadDb_try_def existsSync_def readFileSync_def JSON_parse_def)

lemma saveDb_Doc: "saveDb f j = \<lparr>contents = Doc j, writes = Suc (writes f)\<rparr>"
  by (simp add: saveDb_def writeFileSync_def JSON_stringify_def)

lemma load_save_store: "load_store (save_store f d) = Some d"
  by (simp add: load_store_def save_store_def saveDb_Doc loadDb_cases decode_encode_db)

lemma decode_empty_document: "decode_db empty_document = Some \<lparr>conversations = []\<rparr>"
  by (simp add: decode_db_def empty_document_def encode_db_def)

lemma load_store_empty:
  "load_store \<lparr>contents = Missing, writes = n\<rparr> = Some \<lparr>conversations = []\<rparr>"
  "load_store \<lparr>contents = Unreadable, writes = n\<rparr> = Some \<lparr>conversations = []\<rparr>"
  "load_store \<lparr>contents = Garbage, writes = n\<rparr> = Some \<lparr>conversations = []\<rparr>"
  by (simp_all add: load_store_def loadDb_cases decode_empty_document)

section \<open>Facts about the array operations\<close>

lemma find_first_id: "find P xs = Some x \<Longrightarrow> P x \<and> x \<in> set xs"
  by (induction xs) (auto split: if_splits)

lemma find_None_filter: "find P xs = None \<longleftrightarrow> filter P xs = []"
  by (induction xs) auto

lemma length_update_first: "length (update_first P g xs) = length xs"
  by (induction xs) auto

lemma find_update_first:
  "find P xs = Some x \<Longrightarrow> P y \<Longrightarrow> find P (update_first P (\<lambda>c. y) xs) = Some y"
  by (induction xs) (auto split: if_splits)

lemma others_update_first:
  "P y \<Longrightarrow> filter (\<lambda>c. \<not> P c) (update_first P (\<lambda>c. y) xs) = filter (\<lambda>c. \<not> P c) xs"
  by (induction xs) auto

lemma writes_save_store: "writes (save_store f d) = Suc (writes f)"
  by (simp add: save_store_def saveDb_Doc)

section \<open>Facts about the handlers\<close>

lemma get_found:
  "load_store f = Some d \<Longrightarrow> find (\<lambda>c. id_c c = i) (conversations d) = Some conv \<Longrightarrow>
   getConversation f i = (Inr conv, f)"
  by (simp add: getConversation_def)

lemma get_not_found:
  "load_store f = Some d \<Longrightarrow> find (\<lambda>c. id_c c = i) (conversations d) = None \<Longrightarrow>
   getConversation f i = (Inl (Not_found ''Not found''), f)"
  by (simp add: getConversation_def)

lemma rename_noop_absent:
  "load_store f = Some d \<Longrightarrow> find (\<lambda>c. id_c c = i) (conversations d) = Some conv \<Longrightarrow>
   renameConversation f i None now = (Inr conv, f)"
  by (simp add: renameConversation_def)

lemma rename_noop_empty:
  "load_store f = Some d \<Longrightarrow> find (\<lambda>c. id_c c = i) (conversations d) = Some conv \<Longrightarrow>
   renameConversation f i (Some []) now = (Inr conv, f)"
  by (simp add: renameConversation_def)

lemma rename_sets:
  "load_store f = Some d \<Longrightarrow> find (\<lambda>c. id_c c = i) (conversations d) = Some conv \<Longrightarrow>
   t \<noteq> [] \<Longrightarrow>
   renameConversation f i (Some t) now =
     (Inr (conv\<lparr>title := t, updatedAt := now\<rparr>),
      save_store f (d\<lparr>conversations :=
         update_first (\<lambda>c. id_c c = i) (\<lambda>c. conv\<lparr>title := t, updatedAt := now\<rparr>)
           (conversations d)\<rparr>))"
  by (simp add: renameConversation_def Let_def)

lemma filter_others_all: "find P xs = None \<Longrightarrow> filter (\<lambda>c. \<not> P c) xs = xs"
  by (induction xs) (auto split: if_splits)

lemma filter_others_less: "find P xs = Some x \<Longrightarrow> length (filter (\<lambda>c. \<not> P c) xs) < length xs"
  by (induction xs) (auto split: if_splits simp: less_Suc_eq_le)

lemma find_filter_others: "find P (filter (\<lambda>c. \<not> P c) xs) = None"
  by (induction xs) auto

lemma length_filter_split:
  "length (filter (\<lambda>c. \<not> P c) xs) + length (filter P xs) = length xs"
  by (induction xs) auto

lemma delete_unknown:
  "load_store f = Some d \<Longrightarrow> find (\<lambda>c. id_c c = i) (conversations d) = None \<Longrightarrow>
   deleteConversation f i = (Inl (Not_found ''Not found''), f)"
  using filter_others_all [of "\<lambda>c. id_c c = i" "conversations d"]
  by (simp add: deleteConversation_def Let_def)

lemma delete_known:
  "load_store f = Some d \<Longrightarrow> find (\<lambda>c. id_c c = i) (conversations d) = Some conv \<Longrightarrow>
   deleteConversation f i =
     (Inr Success, save_store f (d\<lparr>conversations := filter (\<lambda>c. id_c c \<noteq> i) (conversations d)\<rparr>))"
  using filter_others_less [of "\<lambda>c. id_c c = i" "conversations d" conv]
  by (simp add: deleteConversation_def Let_def)

lemma submitTurn_alone:
  "submitTurn apiKey fetch f conversationId body_message now =
     (case body_message of
        None \<Rightarrow> (Inl (Bad_request ''Message required''), f)
      | Some message \<Rightarrow>
          if message = [] then (Inl (Bad_request ''Message required''), f)
          else
            (case load_store f of
               None \<Rightarrow> (Inl Outside_layout, f)
             | Some d \<Rightarrow>
                 (case find (\<lambda>c. id_c c = conversationId) (conversations d) of
                    None \<Rightarrow> (Inl (Not_found ''Conversation not found''), f)
                  | Some conv \<Rightarrow>
                      (let conv2 = append_user message conv
                       in case complete apiKey fetch (messages conv2) of
                            Inl error \<Rightarrow> (Inl (Internal_error error), f)
                          | Inr assistantText \<Rightarrow>
                              (let conv3 = append_assistant assistantText now conv2;
                                   d' = d\<lparr>conversations :=
                                           update_first (\<lambda>c. id_c c = conversationId)
                                             (\<lambda>c. conv3) (conversations d)\<rparr>
                               in (Inr \<lparr>reply_role = ''assistant'',
                                        reply_content = assistantText,
                                        reply_conversationId = id_c conv3,
                                        reply_title = title conv3\<rparr>,
                                   save_store f d'))))))"
  by (simp add: submitTurn_def submitTurn_interleaved_def submitTurn_load_def
      submitTurn_settle_def Let_def split: option.splits sum.splits)

lemma append_user_id: "id_c (append_user msg conv) = id_c conv"
  by (simp add: append_user_def Let_def)

lemma append_user_messages:
  "messages (append_user msg conv) = messages conv @ [\<lparr>role = ''user'', content = Some (JStr msg)\<rparr>]"
  by (simp add: append_user_def Let_def)

lemma append_user_title:
  "title (append_user msg conv) =
     (if messages conv = [] \<and> title conv = ''New Chat'' then derive_title msg else title conv)"
  by (simp add: append_user_def Let_def)

lemma append_assistant_simps:
  "id_c (append_assistant a now conv) = id_c conv"
  "title (append_assistant a now conv) = title conv"
  "messages (append_assistant a now conv) = messages conv @ [\<lparr>role = ''assistant'', content = a\<rparr>]"
  "updatedAt (append_assistant a now conv) = now"
  "createdAt (append_assistant a now conv) = createdAt conv"
  by (simp_all add: append_assistant_def)

lemma submit_fail:
  "load_store f = Some d \<Longrightarrow> find (\<lambda>c. id_c c = i) (conversations d) = Some conv \<Longrightarrow>
   msg \<noteq> [] \<Longrightarrow> complete apiKey fetch (messages (append_user msg conv)) = Inl e \<Longrightarrow>
   submitTurn apiKey fetch f i (Some msg) now = (Inl (Internal_error e), f)"
  by (simp add: submitTurn_alone Let_def)

lemma submit_ok:
  "load_store f = Some d \<Longrightarrow> find (\<lambda>c. id_c c = i) (conversations d) = Some conv \<Longrightarrow>
   msg \<noteq> [] \<Longrightarrow> complete apiKey fetch (messages (append_user msg conv)) = Inr a \<Longrightarrow>
   submitTurn apiKey fetch f i (Some msg) now =
     (Inr \<lparr>reply_role = ''assistant'', reply_content = a, reply_conversationId = id_c conv,
           reply_title = title (append_user msg conv)\<rparr>,
      save_store f (d\<lparr>conversations :=
        update_first (\<lambda>c. id_c c = i) (\<lambda>c. append_assistant a now (append_user msg conv))
          (conversations d)\<rparr>))"
  by (simp add: submitTurn_alone Let_def append_assistant_simps append_user_id)

lemma submit_success_cases:
  assumes "load_store f = Some d"
    and "submitTurn apiKey fetch f i bm now = (Inr r, f')"
  obtains msg conv a where "bm = Some msg" "msg \<noteq> []"
    "find (\<lambda>c. id_c c = i) (conversations d) = Some conv"
    "complete apiKey fetch (messages (append_user msg conv)) = Inr a"
  using assms
  by (auto simp: submitTurn_alone Let_def split: option.splits if_splits sum.splits)

lemma submit_unchanged_or_saved:
  assumes "load_store f = Some d"
  shows "snd (submitTurn apiKey fetch f i bm now) = f \<or>
         (\<exists>conv'. id_c conv' = i \<and>
            snd (submitTurn apiKey fetch f i bm now) =
              save_store f (d\<lparr>conversations :=
                update_first (\<lambda>c. id_c c = i) (\<lambda>c. conv') (conversations d)\<rparr>))"
proof (cases "\<exists>r f'. submitTurn apiKey fetch f i bm now = (Inr r, f')")
  case True
  then obtain r f' where s: "submitTurn apiKey fetch f i bm now = (Inr r, f')" by blast
  from assms s obtain msg conv a where *: "bm = Some msg" "msg \<noteq> []"
    "find (\<lambda>c. id_c c = i) (conversations d) = Some conv"
    "complete apiKey fetch (messages (append_user msg conv)) = Inr a"
    by (rule submit_success_cases)
  have "id_c conv = i" using find_first_id [OF *(3)] by simp
  then have "id_c (append_assistant a now (append_user msg conv)) = i"
    by (simp add: append_assistant_simps append_user_id)
  then show ?thesis using submit_ok [OF assms *(3) *(2) *(4), of now] *(1) by auto
next
  case False
  then have "snd (submitTurn apiKey fetch f i bm now) = f"
    using assms
    by (auto simp: submitTurn_alone Let_def split: option.splits if_splits sum.splits)
  then show ?thesis by simp
qed

lemma rename_unchanged_or_saved:
  assumes "load_store f = Some d"
  shows "snd (renameConversation f i t now) = f \<or>
         (\<exists>conv'. id_c conv' = i \<and>
            snd (renameConversation f i t now) =
              save_store f (d\<lparr>conversations :=
                update_first (\<lambda>c. id_c c = i) (\<lambda>c. conv') (conversations d)\<rparr>))"
proof (cases "find (\<lambda>c. id_c c = i) (conversations d)")
  case None
  with assms show ?thesis by (simp add: renameConversation_def)
next
  case (Some conv)
  have idc: "id_c conv = i" using find_first_id [OF Some] by simp
  show ?thesis
  proof (cases "\<exists>t'. t = Some t' \<and> t' \<noteq> []")
    case True
    then obtain t' where "t = Some t'" "t' \<noteq> []" by blast
    with rename_sets [OF assms Some, of t' now] idc show ?thesis
      by (intro disjI2 exI [of _ "conv\<lparr>title := t', updatedAt := now\<rparr>"]) simp
  next
    case False
    with assms Some show ?thesis
      by (cases t) (auto simp: renameConversation_def)
  qed
qed

lemma frame_of_update:
  assumes "f' = f \<or>
           (\<exists>conv'. id_c conv' = i \<and>
              f' = save_store f (d\<lparr>conversations :=
                     update_first (\<lambda>c. id_c c = i) (\<lambda>c. conv') (conversations d)\<rparr>))"
    and "load_store f = Some d"
  shows "\<exists>d'. load_store f' = Some d' \<and>
              filter (\<lambda>c. id_c c \<noteq> i) (conversations d') = filter (\<lambda>c. id_c c \<noteq> i) (conversations d)"
  using assms
  by (auto simp: load_save_store others_update_first)

lemma delete_frame:
  assumes "load_store f = Some d"
  shows "\<exists>d'. load_store (snd (deleteConversation f i)) = Some d' \<and>
              filter (\<lambda>c. id_c c \<noteq> i) (conversations d') = filter (\<lambda>c. id_c c \<noteq> i) (conversations d)"
  using assms
  by (auto simp: deleteConversation_def Let_def load_save_store)

lemma submit_success_result:
  assumes "load_store f = Some d"
    and "submitTurn apiKey fetch f i bm now = (Inr r, f')"
  obtains msg conv a d' where
    "find (\<lambda>c. id_c c = i) (conversations d) = Some conv"
    "reply_title r = title (append_user msg conv)"
    "load_store f' = Some d'"
    "find (\<lambda>c. id_c c = i) (conversations d') = Some (append_assistant a now (append_user msg conv))"
proof -
  from assms obtain msg conv a where *: "bm = Some msg" "msg \<noteq> []"
    "find (\<lambda>c. id_c c = i) (conversations d) = Some conv"
    "complete apiKey fetch (messages (append_user msg conv)) = Inr a"
    by (rule submit_success_cases)
  let ?conv3 = "append_assistant a now (append_user msg conv)"
  let ?d' = "d\<lparr>conversations := update_first (\<lambda>c. id_c c = i) (\<lambda>c. ?conv3) (conversations d)\<rparr>"
  have "id_c conv = i" using find_first_id [OF *(3)] by simp
  then have id3: "id_c ?conv3 = i" by (simp add: append_assistant_simps append_user_id)
  have fnd: "find (\<lambda>c. id_c c = i) (conversations ?d') = Some ?conv3"
    using find_update_first [OF *(3), of ?conv3] id3 by simp
  from submit_ok [OF assms(1) *(3) *(2) *(4), of now] assms(2) *(1)
  have r: "reply_title r = title (append_user msg conv)" and f': "f' = save_store f ?d'"
    by auto
  show thesis
    using that [OF *(3) r _ fnd] f' load_save_store by simp
qed

section \<open>Facts about identifiers\<close>

lemma toString_example: "toString 1700000000000 = ''1700000000000''"
  by (simp add: toString.simps digit_def)

lemma digit_inj: "a < 10 \<Longrightarrow> b < 10 \<Longrightarrow> digit a = digit b \<Longrightarrow> a = b"
proof -
  assume a: "a < 10" and b: "b < 10" and e: "digit a = digit b"
  from a have A: "a \<in> {0, 1, 2, 3, 4, 5, 6, 7, 8, 9}" by auto
  from b have B: "b \<in> {0, 1, 2, 3, 4, 5, 6, 7, 8, 9}" by auto
  from A B e show "a = b" by (auto simp: digit_def)
qed

lemma toString_nonempty: "toString n \<noteq> []"
  by (subst toString.simps) simp

lemma toString_inj: "toString m = toString n \<Longrightarrow> m = n"
proof (induction m arbitrary: n rule: toString.induct)
  case (1 m)
  show ?case
  proof (cases "m < 10")
    case True
    then have m: "toString m = [digit m]" by (subst toString.simps) simp
    show ?thesis
    proof (cases "n < 10")
      case True
      then have "toString n = [digit n]" by (subst toString.simps) simp
      with m "1.prems" \<open>m < 10\<close> True show ?thesis by (simp add: digit_inj)
    next
      case False
      then have "toString n = toString (n div 10) @ [digit (n mod 10)]"
        by (subst toString.simps) simp
      with m "1.prems" toString_nonempty [of "n div 10"] show ?thesis by simp
    qed
  next
    case False
    then have m: "toString m = toString (m div 10) @ [digit (m mod 10)]"
      by (subst toString.simps) simp
    show ?thesis
    proof (cases "n < 10")
      case True
      then have "toString n = [digit n]" by (subst toString.simps) simp
      with m "1.prems" toString_nonempty [of "m div 10"] show ?thesis by simp
    next
      case nbig: False
      then have n: "toString n = toString (n div 10) @ [digit (n mod 10)]"
        by (subst toString.simps) simp
      from m n "1.prems" have eq: "toString (m div 10) = toString (n div 10)"
        and d: "digit (m mod 10) = digit (n mod 10)" by simp_all
      from "1.IH" [OF False eq] have "m div 10 = n div 10" .
      moreover from d have "m mod 10 = n mod 10" by (simp add: digit_inj)
      ultimately show ?thesis by (metis div_mult_mod_eq)
    qed
  qed
qed

lemma inj_toString: "inj toString"
  by (rule injI) (rule toString_inj)

lemma create_answers:
  "load_store f = Some d \<Longrightarrow>
   createConversation f now created updated =
     (Inr \<lparr>id_c = toString now, title = ''New Chat'', messages = [],
           createdAt = created, updatedAt = updated\<rparr>,
      save_store f (d\<lparr>conversations := conversations d @
        [\<lparr>id_c = toString now, title = ''New Chat'', messages = [],
          createdAt = created, updatedAt = updated\<rparr>]\<rparr>))"
  by (simp add: createConversation_def Let_def)

lemma create_seq_ids:
  "load_store f = Some d \<Longrightarrow>
   \<exists>cs. fst (create_seq f ts) = map Inr cs \<and> map id_c cs = map (\<lambda>t. toString (fst t)) ts"
proof (induction ts arbitrary: f d)
  case Nil
  then show ?case by simp
next
  case (Cons t ts)
  obtain now created updated where t: "t = (now, created, updated)" by (cases t)
  let ?c = "\<lparr>id_c = toString now, title = ''New Chat'', messages = [],
             createdAt = created, updatedAt = updated\<rparr>"
  let ?d' = "d\<lparr>conversations := conversations d @ [?c]\<rparr>"
  from Cons.IH [OF load_save_store, of f ?d']
  obtain cs where cs: "fst (create_seq (save_store f ?d') ts) = map Inr cs"
    "map id_c cs = map (\<lambda>t. toString (fst t)) ts" by blast
  have "fst (create_seq f (t # ts)) = map Inr (?c # cs)"
    using create_answers [OF Cons.prems, of now created updated] cs(1) t
    by (simp add: Let_def case_prod_beta)
  moreover have "map id_c (?c # cs) = map (\<lambda>t. toString (fst t)) (t # ts)"
    using cs(2) t by simp
  ultimately show ?case by blast
qed

section \<open>Facts about the example stores\<close>

lemma load_disk0: "load_store disk0 = Some \<lparr>conversations = []\<rparr>"
  by (simp add: disk0_def load_store_empty)

lemma load_disk1: "load_store disk1 = Some store1"
  by (simp add: disk1_def load_save_store)

lemma twin_disk_store:
  "twin_disk =
     save_store (save_store disk0 \<lparr>conversations = [twin_a]\<rparr>) \<lparr>conversations = [twin_a, twin_b]\<rparr>"
  by (simp add: twin_disk_def createConversation_def load_disk0 load_save_store Let_def
      toString_example twin_a_def twin_b_def)

lemma load_disk2: "load_store disk2 = Some store2"
  by (simp add: disk2_def load_save_store)

lemma complete_service_ok:
  "complete (Some ''sk-test'') service_ok h = Inr (Some (JStr ''Use two pointers...''))"
  by (simp add: complete_def service_ok_def reply_body_def assistant_text_def get_prop_def
      get_index0_def)

lemma find_conv1_store1: "find (\<lambda>c. id_c c = ''1'') (conversations store1) = Some conv1"
  by (simp add: store1_def conv1_def)

lemma get_prop_fails: "(\<exists>e. get_prop v k = Inl e) \<longleftrightarrow> nullish v"
  by (auto simp: get_prop_def nullish_def split: option.splits json.splits)

lemma get_index0_fails: "(\<exists>e. get_index0 v = Inl e) \<longleftrightarrow> nullish v"
  by (auto simp: get_index0_def nullish_def split: option.splits json.splits)

lemma get_prop_total: "(\<exists>e. get_prop v k = Inl e) \<or> (\<exists>x. get_prop v k = Inr x)"
  by (cases "get_prop v k") auto

lemma assistant_text_fails:
  "(\<exists>e. assistant_text data = Inl e) \<longleftrightarrow>
     data = JNull \<or>
     (\<exists>c. get_prop (Some data) ''content'' = Inr c \<and>
          (nullish c \<or> (\<exists>c0. get_index0 c = Inr c0 \<and> nullish c0)))"
proof (cases "get_prop (Some data) ''content''")
  case (Inl e)
  then have "nullish (Some data)" using get_prop_fails [of "Some data" "''content''"] by blast
  then have "data = JNull" by (simp add: nullish_def)
  with Inl show ?thesis by (simp add: assistant_text_def)
next
  case (Inr c)
  then have nn: "data \<noteq> JNull" by (auto simp: get_prop_def)
  show ?thesis
  proof (cases "get_index0 c")
    case (Inl e)
    then have "nullish c" using get_index0_fails [of c] by blast
    with Inr Inl show ?thesis by (simp add: assistant_text_def)
  next
    case c0: (Inr c0)
    then have "\<not> nullish c" using get_index0_fails [of c] by auto
    with Inr c0 nn show ?thesis
      using get_prop_fails [of c0 "''text''"] by (simp add: assistant_text_def)
  qed
qed

lemma complete_fails:
  "(\<exists>e. complete apiKey fetch h = Inl e) \<longleftrightarrow>
     apiKey = None \<or> apiKey = Some [] \<or>
     (\<exists>k. apiKey = Some k \<and>
          ((\<exists>m. fetch k h = Rejected m) \<or>
           (\<exists>ok. fetch k h = Response ok None) \<or>
           (\<exists>data. fetch k h = Response False (Some data)) \<or>
           (\<exists>data e. fetch k h = Response True (Some data) \<and> assistant_text data = Inl e)))"
proof (cases apiKey)
  case None
  then show ?thesis by (simp add: complete_def)
next
  case (Some k)
  show ?thesis
  proof (cases "k = []")
    case True
    with Some show ?thesis by (simp add: complete_def)
  next
    case False
    show ?thesis
    proof (cases "fetch k h")
      case (Rejected m)
      with Some False show ?thesis by (simp add: complete_def)
    next
      case (Response ok body)
      show ?thesis
      proof (cases body)
        case None
        with Some False Response show ?thesis by (simp add: complete_def)
      next
        case (Some data)
        with \<open>apiKey = Some k\<close> False Response show ?thesis
          by (cases ok) (simp_all add: complete_def)
      qed
    qed
  qed
qed

lemma complete_examples:
  "complete None service_ok h = Inl Missing_API_Key"
  "complete (Some ''sk-test'') service_down h = Inl (Fetch_rejected ''connect ECONNREFUSED'')"
  "complete (Some ''sk-test'') service_overloaded h = Inl (Api_error (JStr ''Overloaded''))"
  "complete (Some ''sk-test'') service_empty h = Inl TypeError"
  "complete (Some ''sk-test'') service_textless h = Inr None"
  by (simp_all add: complete_def service_down_def service_overloaded_def overloaded_body_def
      service_empty_def service_textless_def textless_body_def api_error_def assistant_text_def
      get_prop_def get_index0_def optional_prop_def nullish_def truthy_def)

lemma sort_insert_insort_key:
  "sort_insert (by_updatedAt_desc dv) x xs = insort_key (\<lambda>s. - dv (sum_updatedAt s)) x xs"
  by (induction xs) (simp_all add: by_updatedAt_desc_def)

lemma Array_sort_sort_key:
  "Array_sort (by_updatedAt_desc dv) xs = sort_key (\<lambda>s. - dv (sum_updatedAt s)) xs"
  by (induction xs) (simp_all add: Array_sort_def sort_key_def sort_insert_insort_key)

lemma Array_sort_descending:
  "sorted_wrt (\<lambda>a b. dv (sum_updatedAt b) \<le> dv (sum_updatedAt a))
     (Array_sort (by_updatedAt_desc dv) xs)"
proof -
  have "sorted (map (\<lambda>s. - dv (sum_updatedAt s)) (Array_sort (by_updatedAt_desc dv) xs))"
    by (simp add: Array_sort_sort_key)
  then show ?thesis by (simp add: sorted_map)
qed

lemma Array_sort_stable:
  "filter (\<lambda>s. dv (sum_updatedAt s) = k) (Array_sort (by_updatedAt_desc dv) xs) =
   filter (\<lambda>s. dv (sum_updatedAt s) = k) xs"
  using sort_key_stable [of "\<lambda>s. - dv (sum_updatedAt s)" "- k" xs]
  by (simp add: Array_sort_sort_key)

lemma load_disk3: "load_store disk3 = Some store3"
  by (simp add: disk3_def load_save_store)

lemma interleaved_success:
  assumes "load_store f = Some d"
    and "submitTurn_interleaved apiKey fetch during f i bm now = (Inr r, f')"
  shows "\<exists>d'. f' = save_store (during f) d' \<and>
              filter (\<lambda>c. id_c c \<noteq> i) (conversations d') =
              filter (\<lambda>c. id_c c \<noteq> i) (conversations d)"
proof -
  from assms obtain msg conv a where *: "bm = Some msg" "msg \<noteq> []"
    "find (\<lambda>c. id_c c = i) (conversations d) = Some conv"
    "complete apiKey fetch (messages (append_user msg conv)) = Inr a"
    by (auto simp: submitTurn_interleaved_def submitTurn_load_def submitTurn_settle_def Let_def
        split: option.splits if_splits sum.splits)
  let ?conv3 = "append_assistant a now (append_user msg conv)"
  let ?d' = "d\<lparr>conversations := update_first (\<lambda>c. id_c c = i) (\<lambda>c. ?conv3) (conversations d)\<rparr>"
  have key: "apiKey \<noteq> None \<and> apiKey \<noteq> Some []"
    using *(4) by (cases apiKey) (auto simp: complete_def)
  have "id_c conv = i" using find_first_id [OF *(3)] by simp
  then have id3: "id_c ?conv3 = i" by (simp add: append_assistant_simps append_user_id)
  have "f' = save_store (during f) ?d'"
    using assms * key
    by (simp add: submitTurn_interleaved_def submitTurn_load_def submitTurn_settle_def Let_def)
  moreover have "filter (\<lambda>c. id_c c \<noteq> i) (conversations ?d') =
                 filter (\<lambda>c. id_c c \<noteq> i) (conversations d)"
    using others_update_first [of "\<lambda>c. id_c c = i" ?conv3 "conversations d"] id3 by simp
  ultimately show ?thesis by blast
qed

lemma interleaved_failure:
  assumes "submitTurn_interleaved apiKey fetch during f i bm now = (Inl e, f')"
  shows "f' = f \<or> f' = during f"
  using assms
  by (auto simp: submitTurn_interleaved_def submitTurn_load_def submitTurn_settle_def Let_def
      split: option.splits if_splits sum.splits)

lemma load_create_during_disk2:
  "load_store (create_during disk2) = Some \<lparr>conversations = [conv1, conv2, twin_a]\<rparr>"
  by (simp add: create_during_def create_answers [OF load_disk2] load_save_store
      toString_example twin_a_def store2_def)

lemma find_conv1_store2: "find (\<lambda>c. id_c c = ''1'') (conversations store2) = Some conv1"
  by (simp add: store2_def conv1_def)

lemma interleaved_turn_disk2:
  "submitTurn_interleaved (Some ''sk-test'') service_ok create_during disk2 ''1''
       (Some ''Hello'') ''2024-02-02T00:00:00.000Z'' =
     (Inr \<lparr>reply_role = ''assistant'', reply_content = Some (JStr ''Use two pointers...''),
           reply_conversationId = ''1'', reply_title = ''Hello''\<rparr>,
      save_store (create_during disk2)
        \<lparr>conversations =
           [\<lparr>id_c = ''1'', title = ''Hello'',
             messages = [\<lparr>role = ''user'', content = Some (JStr ''Hello'')\<rparr>,
                         \<lparr>role = ''assistant'', content = Some (JStr ''Use two pointers...'')\<rparr>],
             createdAt = ''2024-01-01T00:00:00.000Z'',
             updatedAt = ''2024-02-02T00:00:00.000Z''\<rparr>,
            conv2]\<rparr>)"
  by (simp add: submitTurn_interleaved_def submitTurn_load_def submitTurn_settle_def
      load_disk2 find_conv1_store2 complete_service_ok Let_def)
     (simp add: store2_def conv1_def append_user_def append_assistant_def derive_title_def
      Let_def)

section \<open>Claims about the persistence helpers\<close>

text \<open>
  Claim C8. \<open>loadDb\<close> never fails: it has no error result, every exception of its
  \<open>try\<close> block is caught. When the file is missing, or the \<open>try\<close> block throws
  because the file cannot be read or holds text that does not parse, it answers the
  empty collection; when the file parses, it answers the parsed document, and after
  \<open>saveDb\<close> of a store that is the store itself.
\<close>

theorem C8_loadDb_never_fails:
  "existsSync \<lparr>contents = Missing, writes = n\<rparr> = False \<and>
   loadDb_try \<lparr>contents = Unreadable, writes = n\<rparr> = Inl ReadError \<and>
   loadDb_try \<lparr>contents = Garbage, writes = n\<rparr> = Inl SyntaxError \<and>
   loadDb \<lparr>contents = Missing, writes = n\<rparr> = empty_document \<and>
   loadDb \<lparr>contents = Unreadable, writes = n\<rparr> = empty_document \<and>
   loadDb \<lparr>contents = Garbage, writes = n\<rparr> = empty_document \<and>
   load_store \<lparr>contents = Missing, writes = n\<rparr> = Some \<lparr>conversations = []\<rparr> \<and>
   load_store \<lparr>contents = Unreadable, writes = n\<rparr> = Some \<lparr>conversations = []\<rparr> \<and>
   load_store \<lparr>contents = Garbage, writes = n\<rparr> = Some \<lparr>conversations = []\<rparr> \<and>
   loadDb \<lparr>contents = Doc j, writes = n\<rparr> = j \<and>
   loadDb (saveDb f (encode_db d)) = encode_db d \<and>
   load_store (save_store f d) = Some d"
  by (simp add: loadDb_cases load_store_empty load_save_store saveDb_Doc existsSync_def
      loadDb_try_def readFileSync_def JSON_parse_def)

text \<open>
  Claim C9. Saving a store and loading it back gives a store in which every conversation
  has the same messages, in the same order, as before the save (the whole store is
  read back as it was written).
\<close>

theorem C9_save_load_round_trip:
  "\<exists>d'. load_store (save_store f d) = Some d' \<and>
        length (conversations d') = length (conversations d) \<and>
        map messages (conversations d') = map messages (conversations d) \<and>
        d' = d"
  by (simp add: load_save_store)

section \<open>Claims about the conversation repository\<close>

text \<open>
  Claim C6. For a conversation found under \<open>id\<close>: a rename with an absent or an empty
  title answers the conversation as it is and leaves the disk as it was (no write, so
  the title, \<open>updatedAt\<close> and every other field read the same afterwards). A rename with
  a non-empty title answers the conversation with the new title and the fresh
  \<open>updatedAt\<close>, writes the file once, and the saved store has the same number of
  conversations and answers that conversation under \<open>id\<close>.
\<close>

theorem C6_rename:
  assumes "load_store f = Some d"
    and "find (\<lambda>c. id_c c = i) (conversations d) = Some conv"
  shows "renameConversation f i None now = (Inr conv, f) \<and>
         renameConversation f i (Some []) now = (Inr conv, f) \<and>
         getConversation f i = (Inr conv, f) \<and>
         (t \<noteq> [] \<longrightarrow>
            (\<exists>d'. renameConversation f i (Some t) now =
                    (Inr (conv\<lparr>title := t, updatedAt := now\<rparr>), save_store f d') \<and>
                  writes (save_store f d') = Suc (writes f) \<and>
                  load_store (save_store f d') = Some d' \<and>
                  length (conversations d') = length (conversations d) \<and>
                  getConversation (save_store f d') i =
                    (Inr (conv\<lparr>title := t, updatedAt := now\<rparr>), save_store f d')))"
proof -
  let ?conv' = "conv\<lparr>title := t, updatedAt := now\<rparr>"
  let ?d' = "d\<lparr>conversations := update_first (\<lambda>c. id_c c = i) (\<lambda>c. ?conv') (conversations d)\<rparr>"
  have idc: "id_c conv = i" using find_first_id [OF assms(2)] by simp
  have fnd: "find (\<lambda>c. id_c c = i) (conversations ?d') = Some ?conv'"
    using find_update_first [OF assms(2), of ?conv'] idc by simp
  have "t \<noteq> [] \<longrightarrow>
        renameConversation f i (Some t) now = (Inr ?conv', save_store f ?d') \<and>
        writes (save_store f ?d') = Suc (writes f) \<and>
        load_store (save_store f ?d') = Some ?d' \<and>
        length (conversations ?d') = length (conversations d) \<and>
        getConversation (save_store f ?d') i = (Inr ?conv', save_store f ?d')"
    using rename_sets [OF assms] get_found [OF load_save_store fnd]
    by (simp add: writes_save_store load_save_store length_update_first)
  then have "t \<noteq> [] \<longrightarrow>
            (\<exists>d'. renameConversation f i (Some t) now = (Inr ?conv', save_store f d') \<and>
                  writes (save_store f d') = Suc (writes f) \<and>
                  load_store (save_store f d') = Some d' \<and>
                  length (conversations d') = length (conversations d) \<and>
                  getConversation (save_store f d') i = (Inr ?conv', save_store f d'))"
    by blast
  then show ?thesis
    using rename_noop_absent [OF assms] rename_noop_empty [OF assms] get_found [OF assms]
    by simp
qed

theorem C6_rename_witness:
  "renameConversation disk1 ''1'' None ''2024-02-02T00:00:00.000Z'' = (Inr conv1, disk1) \<and>
   renameConversation disk1 ''1'' (Some []) ''2024-02-02T00:00:00.000Z'' = (Inr conv1, disk1) \<and>
   (\<exists>d'. renameConversation disk1 ''1'' (Some ''Plans'') ''2024-02-02T00:00:00.000Z'' =
          (Inr (conv1\<lparr>title := ''Plans'', updatedAt := ''2024-02-02T00:00:00.000Z''\<rparr>),
           save_store disk1 d') \<and>
         writes (save_store disk1 d') = Suc (writes disk1) \<and>
         length (conversations d') = 1)"
proof -
  have found: "find (\<lambda>c. id_c c = ''1'') (conversations store1) = Some conv1"
    by (simp add: store1_def conv1_def)
  have "length (conversations store1) = 1" by (simp add: store1_def)
  with C6_rename [OF load_disk1 found, of "''2024-02-02T00:00:00.000Z''" "''Plans''"]
  show ?thesis by auto
qed

text \<open>
  Claim C7 (as amended). On an id that no conversation holds, delete answers Not-Found
  and leaves the disk as it was. On an id that some conversation holds it answers
  success, writes the file once, removes every conversation holding that id (the
  collection shrinks by their number, by exactly one when exactly one conversation holds
  the id), and a get of that id on the saved store answers Not-Found.
\<close>

theorem C7_delete:
  assumes "load_store f = Some d"
  shows "(find (\<lambda>c. id_c c = i) (conversations d) = None \<longrightarrow>
            deleteConversation f i = (Inl (Not_found ''Not found''), f)) \<and>
         (find (\<lambda>c. id_c c = i) (conversations d) \<noteq> None \<longrightarrow>
            (\<exists>d'. deleteConversation f i = (Inr Success, save_store f d') \<and>
                  writes (save_store f d') = Suc (writes f) \<and>
                  load_store (save_store f d') = Some d' \<and>
                  length (conversations d') + length (filter (\<lambda>c. id_c c = i) (conversations d)) =
                    length (conversations d) \<and>
                  length (conversations d') < length (conversations d) \<and>
                  (length (filter (\<lambda>c. id_c c = i) (conversations d)) = 1 \<longrightarrow>
                     Suc (length (conversations d')) = length (conversations d)) \<and>
                  getConversation (save_store f d') i =
                    (Inl (Not_found ''Not found''), save_store f d')))"
proof -
  let ?d' = "d\<lparr>conversations := filter (\<lambda>c. id_c c \<noteq> i) (conversations d)\<rparr>"
  have gone: "find (\<lambda>c. id_c c = i) (conversations ?d') = None"
    using find_filter_others [of "\<lambda>c. id_c c = i" "conversations d"] by simp
  have split: "length (conversations ?d') + length (filter (\<lambda>c. id_c c = i) (conversations d)) =
               length (conversations d)"
    using length_filter_split [of "\<lambda>c. id_c c = i" "conversations d"] by simp
  have known: "\<exists>d'. deleteConversation f i = (Inr Success, save_store f d') \<and>
                  writes (save_store f d') = Suc (writes f) \<and>
                  load_store (save_store f d') = Some d' \<and>
                  length (conversations d') + length (filter (\<lambda>c. id_c c = i) (conversations d)) =
                    length (conversations d) \<and>
                  length (conversations d') < length (conversations d) \<and>
                  (length (filter (\<lambda>c. id_c c = i) (conversations d)) = 1 \<longrightarrow>
                     Suc (length (conversations d')) = length (conversations d)) \<and>
                  getConversation (save_store f d') i =
                    (Inl (Not_found ''Not found''), save_store f d')"
    if "find (\<lambda>c. id_c c = i) (conversations d) = Some conv" for conv
  proof (intro exI [of _ ?d'] conjI)
    show "deleteConversation f i = (Inr Success, save_store f ?d')"
      using delete_known [OF assms that] .
    show "writes (save_store f ?d') = Suc (writes f)" by (rule writes_save_store)
    show "load_store (save_store f ?d') = Some ?d'" by (rule load_save_store)
    show "length (conversations ?d') + length (filter (\<lambda>c. id_c c = i) (conversations d)) =
          length (conversations d)" by (rule split)
    show "length (conversations ?d') < length (conversations d)"
      using filter_others_less [OF that] by simp
    show "length (filter (\<lambda>c. id_c c = i) (conversations d)) = 1 \<longrightarrow>
          Suc (length (conversations ?d')) = length (conversations d)"
      using split by simp
    show "getConversation (save_store f ?d') i = (Inl (Not_found ''Not found''), save_store f ?d')"
      using get_not_found [OF load_save_store gone] .
  qed
  show ?thesis
    using delete_unknown [OF assms] known by auto
qed

theorem C7_delete_witness:
  "deleteConversation disk1 ''2'' = (Inl (Not_found ''Not found''), disk1) \<and>
   (\<exists>d'. deleteConversation disk1 ''1'' = (Inr Success, save_store disk1 d') \<and>
         Suc (length (conversations d')) = length (conversations store1) \<and>
         getConversation (save_store disk1 d') ''1'' =
           (Inl (Not_found ''Not found''), save_store disk1 d'))"
proof -
  have unknown: "find (\<lambda>c. id_c c = ''2'') (conversations store1) = None"
    by (simp add: store1_def conv1_def)
  have known: "find (\<lambda>c. id_c c = ''1'') (conversations store1) \<noteq> None"
    by (simp add: store1_def conv1_def)
  have one: "length (filter (\<lambda>c. id_c c = ''1'') (conversations store1)) = 1"
    by (simp add: store1_def conv1_def)
  from C7_delete [OF load_disk1, of "''2''"] unknown
  have "deleteConversation disk1 ''2'' = (Inl (Not_found ''Not found''), disk1)" by simp
  moreover from C7_delete [OF load_disk1, of "''1''"] known one
  have "\<exists>d'. deleteConversation disk1 ''1'' = (Inr Success, save_store disk1 d') \<and>
         Suc (length (conversations d')) = length (conversations store1) \<and>
         getConversation (save_store disk1 d') ''1'' =
           (Inl (Not_found ''Not found''), save_store disk1 d')" by auto
  ultimately show ?thesis by simp
qed

text \<open>
  The claim as stated fails where two conversations hold the same id, which two creates
  at the same reading of the clock produce: the delete of that id removes both, and the
  collection shrinks by two.
\<close>

theorem C7_delete_counterexample:
  "load_store twin_disk = Some \<lparr>conversations = [twin_a, twin_b]\<rparr> \<and>
   getConversation twin_disk ''1700000000000'' = (Inr twin_a, twin_disk) \<and>
   deleteConversation twin_disk ''1700000000000'' =
     (Inr Success, save_store twin_disk \<lparr>conversations = []\<rparr>) \<and>
   load_store (snd (deleteConversation twin_disk ''1700000000000'')) = Some \<lparr>conversations = []\<rparr> \<and>
   length [twin_a, twin_b] - length ([] :: conversation list) = 2"
  by (simp add: twin_disk_store load_save_store getConversation_def deleteConversation_def Let_def)
     (simp add: twin_a_def twin_b_def)

section \<open>Frame of the mutating operations\<close>

text \<open>
  Claim C10 (as amended). Rename and delete, each aimed at one id, leave every
  conversation with another id as it was in the persisted collection: after the
  operation the store on disk, restricted to the conversations whose id differs from the
  target, is the same sequence of the same conversations as before. So does a submitted
  turn when no other request is served while it waits for the completion service. In
  general a turn that succeeds writes, over the disk as the requests served during its
  wait left it, a store whose conversations with another id are those of the store the
  turn loaded before the wait; a turn that fails writes nothing.
\<close>

theorem C10_frame:
  assumes "load_store f = Some d"
  shows "(\<exists>d'. load_store (snd (renameConversation f i t now)) = Some d' \<and>
               filter (\<lambda>c. id_c c \<noteq> i) (conversations d') =
               filter (\<lambda>c. id_c c \<noteq> i) (conversations d)) \<and>
         (\<exists>d'. load_store (snd (deleteConversation f i)) = Some d' \<and>
               filter (\<lambda>c. id_c c \<noteq> i) (conversations d') =
               filter (\<lambda>c. id_c c \<noteq> i) (conversations d)) \<and>
         (\<exists>d'. load_store (snd (submitTurn apiKey fetch f i bm now)) = Some d' \<and>
               filter (\<lambda>c. id_c c \<noteq> i) (conversations d') =
               filter (\<lambda>c. id_c c \<noteq> i) (conversations d)) \<and>
         (submitTurn_interleaved apiKey fetch during f i bm now = (Inr r, f') \<longrightarrow>
            (\<exists>d'. f' = save_store (during f) d' \<and> load_store f' = Some d' \<and>
                  filter (\<lambda>c. id_c c \<noteq> i) (conversations d') =
                  filter (\<lambda>c. id_c c \<noteq> i) (conversations d))) \<and>
         (submitTurn_interleaved apiKey fetch during f i bm now = (Inl e, f') \<longrightarrow>
            f' = f \<or> f' = during f)"
proof (intro conjI impI)
  show "\<exists>d'. load_store (snd (renameConversation f i t now)) = Some d' \<and>
             filter (\<lambda>c. id_c c \<noteq> i) (conversations d') =
             filter (\<lambda>c. id_c c \<noteq> i) (conversations d)"
    using frame_of_update [OF rename_unchanged_or_saved [OF assms] assms] .
  show "\<exists>d'. load_store (snd (deleteConversation f i)) = Some d' \<and>
             filter (\<lambda>c. id_c c \<noteq> i) (conversations d') =
             filter (\<lambda>c. id_c c \<noteq> i) (conversations d)"
    using delete_frame [OF assms] .
  show "\<exists>d'. load_store (snd (submitTurn apiKey fetch f i bm now)) = Some d' \<and>
             filter (\<lambda>c. id_c c \<noteq> i) (conversations d') =
             filter (\<lambda>c. id_c c \<noteq> i) (conversations d)"
    using frame_of_update [OF submit_unchanged_or_saved [OF assms] assms] .
next
  assume "submitTurn_interleaved apiKey fetch during f i bm now = (Inr r, f')"
  from interleaved_success [OF assms this]
  show "\<exists>d'. f' = save_store (during f) d' \<and> load_store f' = Some d' \<and>
             filter (\<lambda>c. id_c c \<noteq> i) (conversations d') =
             filter (\<lambda>c. id_c c \<noteq> i) (conversations d)"
    using load_save_store by blast
next
  assume "submitTurn_interleaved apiKey fetch during f i bm now = (Inl e, f')"
  then show "f' = f \<or> f' = during f" by (rule interleaved_failure)
qed

theorem C10_frame_witness:
  "(\<exists>d'. load_store (snd (renameConversation disk2 ''1'' (Some ''Plans'')
                            ''2024-02-02T00:00:00.000Z'')) = Some d' \<and>
         filter (\<lambda>c. id_c c \<noteq> ''1'') (conversations d') = [conv2]) \<and>
   (\<exists>d'. load_store (snd (deleteConversation disk2 ''1'')) = Some d' \<and>
         filter (\<lambda>c. id_c c \<noteq> ''1'') (conversations d') = [conv2]) \<and>
   (\<exists>d'. load_store (snd (submitTurn (Some ''sk-test'') service_ok disk2 ''1''
                            (Some ''How do I reverse a string in place?'')
                            ''2024-02-02T00:00:00.000Z'')) = Some d' \<and>
         filter (\<lambda>c. id_c c \<noteq> ''1'') (conversations d') = [conv2]) \<and>
   (\<exists>d'. load_store (snd (submitTurn_interleaved (Some ''sk-test'') service_ok create_during
                            disk2 ''1'' (Some ''Hello'') ''2024-02-02T00:00:00.000Z'')) = Some d' \<and>
         filter (\<lambda>c. id_c c \<noteq> ''1'') (conversations d') = [conv2]) \<and>
   submitTurn_interleaved (Some ''sk-test'') service_down create_during disk2 ''1''
       (Some ''Hello'') ''2024-02-02T00:00:00.000Z'' =
     (Inl (Internal_error (Fetch_rejected ''connect ECONNREFUSED'')), create_during disk2)"
proof -
  have others: "filter (\<lambda>c. id_c c \<noteq> ''1'') (conversations store2) = [conv2]"
    by (simp add: store2_def conv1_def conv2_def)
  have down: "submitTurn_interleaved (Some ''sk-test'') service_down create_during disk2 ''1''
       (Some ''Hello'') ''2024-02-02T00:00:00.000Z'' =
     (Inl (Internal_error (Fetch_rejected ''connect ECONNREFUSED'')), create_during disk2)"
    by (simp add: submitTurn_interleaved_def submitTurn_load_def submitTurn_settle_def
        load_disk2 find_conv1_store2 complete_examples Let_def)
  note inst = C10_frame [OF load_disk2, where i = "''1''" and t = "Some ''Plans''"
      and now = "''2024-02-02T00:00:00.000Z''" and apiKey = "Some ''sk-test''"
      and during = create_during]
  from inst [where fetch = service_ok and bm = "Some ''How do I reverse a string in place?''"]
    others
  have seq: "(\<exists>d'. load_store (snd (renameConversation disk2 ''1'' (Some ''Plans'')
                            ''2024-02-02T00:00:00.000Z'')) = Some d' \<and>
         filter (\<lambda>c. id_c c \<noteq> ''1'') (conversations d') = [conv2]) \<and>
   (\<exists>d'. load_store (snd (deleteConversation disk2 ''1'')) = Some d' \<and>
         filter (\<lambda>c. id_c c \<noteq> ''1'') (conversations d') = [conv2]) \<and>
   (\<exists>d'. load_store (snd (submitTurn (Some ''sk-test'') service_ok disk2 ''1''
                            (Some ''How do I reverse a string in place?'')
                            ''2024-02-02T00:00:00.000Z'')) = Some d' \<and>
         filter (\<lambda>c. id_c c \<noteq> ''1'') (conversations d') = [conv2])"
    by simp
  let ?R = "\<lparr>reply_role = ''assistant'', reply_content = Some (JStr ''Use two pointers...''),
           reply_conversationId = ''1'', reply_title = ''Hello''\<rparr>"
  let ?F = "save_store (create_during disk2)
        \<lparr>conversations =
           [\<lparr>id_c = ''1'', title = ''Hello'',
             messages = [\<lparr>role = ''user'', content = Some (JStr ''Hello'')\<rparr>,
                         \<lparr>role = ''assistant'', content = Some (JStr ''Use two pointers...'')\<rparr>],
             createdAt = ''2024-01-01T00:00:00.000Z'',
             updatedAt = ''2024-02-02T00:00:00.000Z''\<rparr>,
            conv2]\<rparr>"
  have turn: "submitTurn_interleaved (Some ''sk-test'') service_ok create_during disk2 ''1''
       (Some ''Hello'') ''2024-02-02T00:00:00.000Z'' = (Inr ?R, ?F)"
    by (rule interleaved_turn_disk2)
  from inst [where fetch = service_ok and bm = "Some ''Hello''" and r = ?R and f' = ?F]
    turn others
  have "\<exists>d'. load_store ?F = Some d' \<and> filter (\<lambda>c. id_c c \<noteq> ''1'') (conversations d') = [conv2]"
    by auto
  then have inter: "\<exists>d'. load_store (snd (submitTurn_interleaved (Some ''sk-test'') service_ok
                  create_during disk2 ''1'' (Some ''Hello'') ''2024-02-02T00:00:00.000Z'')) = Some d' \<and>
         filter (\<lambda>c. id_c c \<noteq> ''1'') (conversations d') = [conv2]"
    unfolding turn by simp
  from inst [where fetch = service_down and bm = "Some ''Hello''"] down
  have "snd (submitTurn_interleaved (Some ''sk-test'') service_down create_during disk2 ''1''
       (Some ''Hello'') ''2024-02-02T00:00:00.000Z'') = disk2 \<or>
     snd (submitTurn_interleaved (Some ''sk-test'') service_down create_during disk2 ''1''
       (Some ''Hello'') ''2024-02-02T00:00:00.000Z'') = create_during disk2"
    by simp
  with seq inter down show ?thesis by simp
qed

text \<open>
  The claim as stated fails for a turn during whose wait another request writes the
  store. A conversation created while the turn on \<open>1\<close> waits is in the persisted
  collection when the turn resumes; the save of the turn writes the collection loaded
  before the wait, and the new conversation, whose id is not \<open>1\<close>, is gone.
\<close>

theorem C10_counterexample:
  "load_store disk2 = Some \<lparr>conversations = [conv1, conv2]\<rparr> \<and>
   load_store (create_during disk2) = Some \<lparr>conversations = [conv1, conv2, twin_a]\<rparr> \<and>
   id_c twin_a = ''1700000000000'' \<and>
   getConversation (create_during disk2) ''1700000000000'' = (Inr twin_a, create_during disk2) \<and>
   fst (submitTurn_interleaved (Some ''sk-test'') service_ok create_during disk2 ''1''
          (Some ''Hello'') ''2024-02-02T00:00:00.000Z'') =
     Inr \<lparr>reply_role = ''assistant'', reply_content = Some (JStr ''Use two pointers...''),
          reply_conversationId = ''1'', reply_title = ''Hello''\<rparr> \<and>
   getConversation
       (snd (submitTurn_interleaved (Some ''sk-test'') service_ok create_during disk2 ''1''
               (Some ''Hello'') ''2024-02-02T00:00:00.000Z'')) ''1700000000000'' =
     (Inl (Not_found ''Not found''),
      snd (submitTurn_interleaved (Some ''sk-test'') service_ok create_during disk2 ''1''
             (Some ''Hello'') ''2024-02-02T00:00:00.000Z''))"
  unfolding interleaved_turn_disk2
  by (simp add: load_disk2 load_create_during_disk2 load_save_store getConversation_def)
     (simp add: store2_def twin_a_def conv1_def conv2_def)

section \<open>Claims about the message exchange\<close>

text \<open>
  Claim C2. On the first turn of a conversation (no message yet) whose title is still
  the default \<open>New Chat\<close>: a text of exactly 30 units becomes the title as it is, a text
  of 31 or more units becomes its first 30 units followed by \<open>...\<close>. When the completion
  succeeds, that title is the one in the reply and the one persisted.
\<close>

theorem C2_title_boundary:
  assumes "load_store f = Some d"
    and "find (\<lambda>c. id_c c = i) (conversations d) = Some conv"
    and "messages conv = []"
    and "title conv = ''New Chat''"
  shows "(length msg = 30 \<longrightarrow> title (append_user msg conv) = msg) \<and>
         (31 \<le> length msg \<longrightarrow> title (append_user msg conv) = take 30 msg @ ''...'') \<and>
         (msg \<noteq> [] \<and> complete apiKey fetch (messages (append_user msg conv)) = Inr a \<longrightarrow>
            (\<exists>f' c. submitTurn apiKey fetch f i (Some msg) now =
                      (Inr \<lparr>reply_role = ''assistant'', reply_content = a,
                            reply_conversationId = i,
                            reply_title = title (append_user msg conv)\<rparr>, f') \<and>
                    getConversation f' i = (Inr c, f') \<and>
                    title c = title (append_user msg conv)))"
proof (intro conjI impI)
  show "title (append_user msg conv) = msg" if "length msg = 30"
    using that assms(3,4) by (simp add: append_user_title derive_title_def)
  show "title (append_user msg conv) = take 30 msg @ ''...''" if "31 \<le> length msg"
    using that assms(3,4) by (simp add: append_user_title derive_title_def)
next
  assume ok: "msg \<noteq> [] \<and> complete apiKey fetch (messages (append_user msg conv)) = Inr a"
  let ?conv3 = "append_assistant a now (append_user msg conv)"
  let ?d' = "d\<lparr>conversations := update_first (\<lambda>c. id_c c = i) (\<lambda>c. ?conv3) (conversations d)\<rparr>"
  have idc: "id_c conv = i" using find_first_id [OF assms(2)] by simp
  then have id3: "id_c ?conv3 = i" by (simp add: append_assistant_simps append_user_id)
  have fnd: "find (\<lambda>c. id_c c = i) (conversations ?d') = Some ?conv3"
    using find_update_first [OF assms(2), of ?conv3] id3 by simp
  have "submitTurn apiKey fetch f i (Some msg) now =
          (Inr \<lparr>reply_role = ''assistant'', reply_content = a, reply_conversationId = i,
                reply_title = title (append_user msg conv)\<rparr>, save_store f ?d')"
    using submit_ok [OF assms(1,2), of msg apiKey fetch a now] ok idc by simp
  moreover have "getConversation (save_store f ?d') i = (Inr ?conv3, save_store f ?d')"
    using get_found [OF load_save_store fnd] .
  moreover have "title ?conv3 = title (append_user msg conv)"
    by (simp add: append_assistant_simps)
  ultimately show "\<exists>f' c. submitTurn apiKey fetch f i (Some msg) now =
                      (Inr \<lparr>reply_role = ''assistant'', reply_content = a,
                            reply_conversationId = i,
                            reply_title = title (append_user msg conv)\<rparr>, f') \<and>
                    getConversation f' i = (Inr c, f') \<and>
                    title c = title (append_user msg conv)"
    by blast
qed

theorem C2_title_boundary_witness:
  "title (append_user ''Explain closures in JavaScript'' conv1) = ''Explain closures in JavaScript'' \<and>
   title (append_user ''How do I reverse a string in place?'' conv1) =
     ''How do I reverse a string in p...'' \<and>
   (\<exists>f' c. submitTurn (Some ''sk-test'') service_ok disk1 ''1''
             (Some ''How do I reverse a string in place?'') ''2024-02-02T00:00:00.000Z'' =
             (Inr \<lparr>reply_role = ''assistant'', reply_content = Some (JStr ''Use two pointers...''),
                   reply_conversationId = ''1'',
                   reply_title = ''How do I reverse a string in p...''\<rparr>, f') \<and>
           getConversation f' ''1'' = (Inr c, f') \<and>
           title c = ''How do I reverse a string in p...'')"
proof -
  have m: "messages conv1 = []" and t: "title conv1 = ''New Chat''"
    by (simp_all add: conv1_def)
  have t30: "title (append_user ''Explain closures in JavaScript'' conv1) =
             ''Explain closures in JavaScript''"
    using C2_title_boundary [OF load_disk1 find_conv1_store1 m t,
        of "''Explain closures in JavaScript''"]
    by simp
  have t35: "title (append_user ''How do I reverse a string in place?'' conv1) =
             ''How do I reverse a string in p...''"
    using C2_title_boundary [OF load_disk1 find_conv1_store1 m t,
        of "''How do I reverse a string in place?''"]
    by simp
  show ?thesis
    using C2_title_boundary [OF load_disk1 find_conv1_store1 m t,
        of "''How do I reverse a string in place?''" "Some ''sk-test''" service_ok
           "Some (JStr ''Use two pointers...'')" "''2024-02-02T00:00:00.000Z''"]
      complete_service_ok t30 t35
    by simp
qed

text \<open>
  Claim C3. The title is derived only on a turn whose conversation had no message before
  the append and still had the default title. A turn on a conversation that already has
  a message answers and persists the title it found; so the second of two successful
  turns answers and persists the title that the first one left.
\<close>

theorem C3_title_derived_once:
  assumes "load_store f = Some d"
  shows "(title (append_user msg conv) \<noteq> title conv \<longrightarrow>
            messages conv = [] \<and> title conv = ''New Chat'') \<and>
         (find (\<lambda>c. id_c c = i) (conversations d) = Some conv \<and> messages conv \<noteq> [] \<and>
          submitTurn apiKey fetch f i bm now = (Inr r, f') \<longrightarrow>
            reply_title r = title conv \<and>
            (\<exists>c. getConversation f' i = (Inr c, f') \<and> title c = title conv)) \<and>
         (submitTurn apiKey1 fetch1 f i bm1 now1 = (Inr r1, f1) \<and>
          submitTurn apiKey2 fetch2 f1 i bm2 now2 = (Inr r2, f2) \<longrightarrow>
            reply_title r2 = reply_title r1 \<and>
            (\<exists>c1 c2. getConversation f1 i = (Inr c1, f1) \<and>
                     getConversation f2 i = (Inr c2, f2) \<and>
                     title c1 = reply_title r1 \<and> title c2 = title c1))"
proof (intro conjI impI)
  show "messages conv = []" if "title (append_user msg conv) \<noteq> title conv"
    using that by (simp add: append_user_title split: if_splits)
  show "title conv = ''New Chat''" if "title (append_user msg conv) \<noteq> title conv"
    using that by (simp add: append_user_title split: if_splits)
next
  assume a: "find (\<lambda>c. id_c c = i) (conversations d) = Some conv \<and> messages conv \<noteq> [] \<and>
             submitTurn apiKey fetch f i bm now = (Inr r, f')"
  from assms a obtain m c0 x d' where *:
    "find (\<lambda>c. id_c c = i) (conversations d) = Some c0"
    "reply_title r = title (append_user m c0)"
    "load_store f' = Some d'"
    "find (\<lambda>c. id_c c = i) (conversations d') = Some (append_assistant x now (append_user m c0))"
    by (blast elim: submit_success_result)
  from a *(1) have c0: "c0 = conv" by simp
  with a *(2) show "reply_title r = title conv" by (simp add: append_user_title)
  have "title (append_assistant x now (append_user m c0)) = title conv"
    using a c0 by (simp add: append_assistant_simps append_user_title)
  with get_found [OF *(3,4)]
  show "\<exists>c. getConversation f' i = (Inr c, f') \<and> title c = title conv" by blast
next
  assume a: "submitTurn apiKey1 fetch1 f i bm1 now1 = (Inr r1, f1) \<and>
             submitTurn apiKey2 fetch2 f1 i bm2 now2 = (Inr r2, f2)"
  from assms a obtain m1 c0 x1 d1 where 1:
    "reply_title r1 = title (append_user m1 c0)"
    "load_store f1 = Some d1"
    "find (\<lambda>c. id_c c = i) (conversations d1) = Some (append_assistant x1 now1 (append_user m1 c0))"
    by (blast elim: submit_success_result)
  let ?c1 = "append_assistant x1 now1 (append_user m1 c0)"
  from 1(2) a obtain m2 c1' x2 d2 where 2:
    "find (\<lambda>c. id_c c = i) (conversations d1) = Some c1'"
    "reply_title r2 = title (append_user m2 c1')"
    "load_store f2 = Some d2"
    "find (\<lambda>c. id_c c = i) (conversations d2) = Some (append_assistant x2 now2 (append_user m2 c1'))"
    by (blast elim: submit_success_result)
  from 1(3) 2(1) have c1': "c1' = ?c1" by simp
  have ne: "messages ?c1 \<noteq> []" by (simp add: append_assistant_simps)
  have t1: "title ?c1 = reply_title r1" using 1(1) by (simp add: append_assistant_simps)
  have t2: "title (append_user m2 ?c1) = title ?c1" using ne by (simp add: append_user_title)
  show "reply_title r2 = reply_title r1" using 2(2) c1' t1 t2 by simp
  have "title (append_assistant x2 now2 (append_user m2 c1')) = title ?c1"
    using c1' t2 by (simp add: append_assistant_simps)
  with get_found [OF 1(2,3)] get_found [OF 2(3,4)] t1
  show "\<exists>c1 c2. getConversation f1 i = (Inr c1, f1) \<and> getConversation f2 i = (Inr c2, f2) \<and>
                title c1 = reply_title r1 \<and> title c2 = title c1"
    by blast
qed


theorem C3_title_derived_once_witness:
  "title (append_user ''Hello'' conv1) \<noteq> title conv1 \<and> messages conv1 = [] \<and>
   title conv1 = ''New Chat'' \<and>
   (\<exists>r1 f1 r2 f2.
      submitTurn (Some ''sk-test'') service_ok disk1 ''1''
        (Some ''How do I reverse a string in place?'') ''2024-02-02T00:00:00.000Z'' = (Inr r1, f1) \<and>
      submitTurn (Some ''sk-test'') service_ok f1 ''1''
        (Some ''And in Python?'') ''2024-02-02T00:00:05.000Z'' = (Inr r2, f2) \<and>
      reply_title r1 = ''How do I reverse a string in p...'' \<and>
      reply_title r2 = ''How do I reverse a string in p...'')"
proof -
  let ?m1 = "''How do I reverse a string in place?''"
  let ?m2 = "''And in Python?''"
  let ?n1 = "''2024-02-02T00:00:00.000Z''"
  let ?n2 = "''2024-02-02T00:00:05.000Z''"
  let ?a = "Some (JStr ''Use two pointers...'')"
  let ?c1 = "append_assistant ?a ?n1 (append_user ?m1 conv1)"
  let ?d1 = "store1\<lparr>conversations :=
               update_first (\<lambda>c. id_c c = ''1'') (\<lambda>c. ?c1) (conversations store1)\<rparr>"
  let ?f1 = "save_store disk1 ?d1"
  let ?r1 = "\<lparr>reply_role = ''assistant'', reply_content = ?a, reply_conversationId = id_c conv1,
              reply_title = title (append_user ?m1 conv1)\<rparr>"
  let ?c2 = "append_assistant ?a ?n2 (append_user ?m2 ?c1)"
  let ?d2 = "?d1\<lparr>conversations :=
               update_first (\<lambda>c. id_c c = ''1'') (\<lambda>c. ?c2) (conversations ?d1)\<rparr>"
  let ?f2 = "save_store ?f1 ?d2"
  let ?r2 = "\<lparr>reply_role = ''assistant'', reply_content = ?a, reply_conversationId = id_c ?c1,
              reply_title = title (append_user ?m2 ?c1)\<rparr>"
  have s1: "submitTurn (Some ''sk-test'') service_ok disk1 ''1'' (Some ?m1) ?n1 = (Inr ?r1, ?f1)"
    using submit_ok [OF load_disk1 find_conv1_store1 _ complete_service_ok, of ?m1 ?n1] by simp
  have found1: "find (\<lambda>c. id_c c = ''1'') (conversations ?d1) = Some ?c1"
    using find_update_first [OF find_conv1_store1, of ?c1]
    by (simp add: append_assistant_simps append_user_id conv1_def)
  have s2: "submitTurn (Some ''sk-test'') service_ok ?f1 ''1'' (Some ?m2) ?n2 = (Inr ?r2, ?f2)"
    using submit_ok [OF load_save_store found1 _ complete_service_ok, where msg = ?m2 and now = ?n2]
    by simp
  have t1: "reply_title ?r1 = ''How do I reverse a string in p...''"
    by (simp add: append_user_title derive_title_def conv1_def)
  have first: "title (append_user ''Hello'' conv1) \<noteq> title conv1"
    by (simp add: append_user_title derive_title_def conv1_def)
  from C3_title_derived_once [OF load_disk1, where msg = "''Hello''" and conv = conv1
      and i = "''1''" and ?apiKey1.0 = "Some ''sk-test''" and ?fetch1.0 = service_ok
      and ?bm1.0 = "Some ?m1" and ?now1.0 = ?n1 and ?r1.0 = ?r1 and ?f1.0 = ?f1
      and ?apiKey2.0 = "Some ''sk-test''" and ?fetch2.0 = service_ok
      and ?bm2.0 = "Some ?m2" and ?now2.0 = ?n2 and ?r2.0 = ?r2 and ?f2.0 = ?f2] first s1 s2
  have "messages conv1 = [] \<and> title conv1 = ''New Chat'' \<and> reply_title ?r2 = reply_title ?r1"
    by blast
  with first s1 s2 t1 show ?thesis by (metis (no_types, lifting))
qed

text \<open>
  Claim C1 (as amended). For a turn on a found conversation with a non-empty text: when
  the completion step throws, the handler answers the internal error with the cause and
  the disk is as it was, so a get of the id answers the conversation without the user
  message and without an assistant message. The step throws exactly when the API key is
  absent or empty, the request is rejected, the body of the response is not JSON, the
  response is not a success, or reading \<open>data.content[0].text\<close> throws; that reading
  throws exactly when the body is \<open>null\<close>, its \<open>content\<close> is \<open>undefined\<close> or \<open>null\<close>,
  or the first element of \<open>content\<close> is.
\<close>

theorem C1_failed_turn_not_persisted:
  assumes "load_store f = Some d"
    and "find (\<lambda>c. id_c c = i) (conversations d) = Some conv"
    and "msg \<noteq> []"
  shows "(complete apiKey fetch (messages (append_user msg conv)) = Inl e \<longrightarrow>
            submitTurn apiKey fetch f i (Some msg) now = (Inl (Internal_error e), f) \<and>
            getConversation f i = (Inr conv, f)) \<and>
         ((\<exists>e. complete apiKey fetch (messages (append_user msg conv)) = Inl e) \<longleftrightarrow>
            apiKey = None \<or> apiKey = Some [] \<or>
            (\<exists>k. apiKey = Some k \<and>
               ((\<exists>m. fetch k (messages (append_user msg conv)) = Rejected m) \<or>
                (\<exists>ok. fetch k (messages (append_user msg conv)) = Response ok None) \<or>
                (\<exists>data. fetch k (messages (append_user msg conv)) = Response False (Some data)) \<or>
                (\<exists>data e. fetch k (messages (append_user msg conv)) = Response True (Some data) \<and>
                          assistant_text data = Inl e)))) \<and>
         ((\<exists>e. assistant_text body = Inl e) \<longleftrightarrow>
            body = JNull \<or>
            (\<exists>c. get_prop (Some body) ''content'' = Inr c \<and>
                 (nullish c \<or> (\<exists>c0. get_index0 c = Inr c0 \<and> nullish c0))))"
  using submit_fail [OF assms, of apiKey fetch e now] get_found [OF assms(1,2)]
    complete_fails [of apiKey fetch "messages (append_user msg conv)"]
    assistant_text_fails [of body]
  by simp


theorem C1_failed_turn_not_persisted_witness:
  "submitTurn None service_ok disk1 ''1'' (Some ''Hello'') ''2024-02-02T00:00:00.000Z'' =
     (Inl (Internal_error Missing_API_Key), disk1) \<and>
   submitTurn (Some ''sk-test'') service_down disk1 ''1'' (Some ''Hello'')
       ''2024-02-02T00:00:00.000Z'' =
     (Inl (Internal_error (Fetch_rejected ''connect ECONNREFUSED'')), disk1) \<and>
   submitTurn (Some ''sk-test'') service_overloaded disk1 ''1'' (Some ''Hello'')
       ''2024-02-02T00:00:00.000Z'' =
     (Inl (Internal_error (Api_error (JStr ''Overloaded''))), disk1) \<and>
   submitTurn (Some ''sk-test'') service_empty disk1 ''1'' (Some ''Hello'')
       ''2024-02-02T00:00:00.000Z'' =
     (Inl (Internal_error TypeError), disk1) \<and>
   getConversation disk1 ''1'' = (Inr conv1, disk1)"
proof -
  have ne: "''Hello'' \<noteq> []" by simp
  note inst = C1_failed_turn_not_persisted [OF load_disk1 find_conv1_store1 ne,
      where now = "''2024-02-02T00:00:00.000Z''"]
  show ?thesis
    using inst [where apiKey = None and fetch = service_ok and e = Missing_API_Key]
      inst [where apiKey = "Some ''sk-test''" and fetch = service_down
        and e = "Fetch_rejected ''connect ECONNREFUSED''"]
      inst [where apiKey = "Some ''sk-test''" and fetch = service_overloaded
        and e = "Api_error (JStr ''Overloaded'')"]
      inst [where apiKey = "Some ''sk-test''" and fetch = service_empty and e = TypeError]
    by (simp add: complete_examples)
qed

text \<open>
  The claim as stated counts a response body without the expected text as a failure. A
  success response whose first content block has no \<open>text\<close> does not make the handler
  throw: the assistant text is \<open>undefined\<close>, the turn is saved with both messages and
  the reply is a success payload.
\<close>

theorem C1_counterexample:
  "get_prop (Some (JObj [(''type'', JStr ''text'')])) ''text'' = Inr None \<and>
   assistant_text textless_body = Inr None \<and>
   submitTurn (Some ''sk-test'') service_textless disk1 ''1'' (Some ''Hello'')
       ''2024-02-02T00:00:00.000Z'' =
     (Inr \<lparr>reply_role = ''assistant'', reply_content = None, reply_conversationId = ''1'',
           reply_title = ''Hello''\<rparr>,
      save_store disk1
        \<lparr>conversations =
           [\<lparr>id_c = ''1'', title = ''Hello'',
             messages = [\<lparr>role = ''user'', content = Some (JStr ''Hello'')\<rparr>,
                         \<lparr>role = ''assistant'', content = None\<rparr>],
             createdAt = ''2024-01-01T00:00:00.000Z'',
             updatedAt = ''2024-02-02T00:00:00.000Z''\<rparr>]\<rparr>) \<and>
   getConversation
       (snd (submitTurn (Some ''sk-test'') service_textless disk1 ''1'' (Some ''Hello'')
               ''2024-02-02T00:00:00.000Z'')) ''1'' \<noteq>
     (Inr conv1,
      snd (submitTurn (Some ''sk-test'') service_textless disk1 ''1'' (Some ''Hello'')
             ''2024-02-02T00:00:00.000Z''))"
proof -
  have ne: "''Hello'' \<noteq> []" by simp
  have turn: "submitTurn (Some ''sk-test'') service_textless disk1 ''1'' (Some ''Hello'')
       ''2024-02-02T00:00:00.000Z'' =
     (Inr \<lparr>reply_role = ''assistant'', reply_content = None, reply_conversationId = ''1'',
           reply_title = ''Hello''\<rparr>,
      save_store disk1
        \<lparr>conversations =
           [\<lparr>id_c = ''1'', title = ''Hello'',
             messages = [\<lparr>role = ''user'', content = Some (JStr ''Hello'')\<rparr>,
                         \<lparr>role = ''assistant'', content = None\<rparr>],
             createdAt = ''2024-01-01T00:00:00.000Z'',
             updatedAt = ''2024-02-02T00:00:00.000Z''\<rparr>]\<rparr>)"
    using submit_ok [OF load_disk1 find_conv1_store1 ne complete_examples(5),
        of "''2024-02-02T00:00:00.000Z''"]
    by (simp add: store1_def conv1_def append_user_def append_assistant_def derive_title_def
        Let_def)
  show ?thesis
    unfolding turn
    by (simp add: load_save_store getConversation_def conv1_def textless_body_def
        assistant_text_def get_prop_def get_index0_def)
qed

section \<open>Claims about the summaries and the identifiers\<close>

text \<open>
  Claim C5. On every store, the list of summaries answers one record
  \<open>{id, title, updatedAt}\<close> for each conversation (the records of the conversations, as a
  multiset, and as many), in descending order of the time value of \<open>updatedAt\<close>;
  records whose time values are equal keep the order they have in the store; the disk
  is as it was, with no write.
\<close>

theorem C5_listSummaries:
  assumes "load_store f = Some d"
  shows "\<exists>S. listSummaries date_value f = (Inr S, f) \<and>
             mset S = mset (map summarise (conversations d)) \<and>
             length S = length (conversations d) \<and>
             sorted_wrt (\<lambda>a b. date_value (sum_updatedAt b) \<le> date_value (sum_updatedAt a)) S \<and>
             (\<forall>k. filter (\<lambda>s. date_value (sum_updatedAt s) = k) S =
                  filter (\<lambda>s. date_value (sum_updatedAt s) = k) (map summarise (conversations d)))"
proof (intro exI conjI allI)
  let ?S = "Array_sort (by_updatedAt_desc date_value) (map summarise (conversations d))"
  show "listSummaries date_value f = (Inr ?S, f)"
    using assms by (simp add: listSummaries_def)
  show "mset ?S = mset (map summarise (conversations d))"
    by (simp add: Array_sort_sort_key)
  show "length ?S = length (conversations d)"
    by (simp add: Array_sort_sort_key)
  show "sorted_wrt (\<lambda>a b. date_value (sum_updatedAt b) \<le> date_value (sum_updatedAt a)) ?S"
    by (rule Array_sort_descending)
  show "filter (\<lambda>s. date_value (sum_updatedAt s) = k) ?S =
        filter (\<lambda>s. date_value (sum_updatedAt s) = k) (map summarise (conversations d))" for k
    by (rule Array_sort_stable)
qed

theorem C5_listSummaries_witness:
  "listSummaries example_date disk3 =
     (Inr [\<lparr>sum_id = ''2'', sum_title = ''Sorting'', sum_updatedAt = ''2024-01-03T00:00:00.000Z''\<rparr>,
           \<lparr>sum_id = ''1'', sum_title = ''New Chat'', sum_updatedAt = ''2024-01-01T00:00:00.000Z''\<rparr>,
           \<lparr>sum_id = ''3'', sum_title = ''Parsing'', sum_updatedAt = ''2024-01-01T00:00:00.000Z''\<rparr>],
      disk3)"
proof -
  from C5_listSummaries [OF load_disk3, of example_date]
  obtain S where S: "listSummaries example_date disk3 = (Inr S, disk3)" by blast
  have "listSummaries example_date disk3 =
     (Inr [\<lparr>sum_id = ''2'', sum_title = ''Sorting'', sum_updatedAt = ''2024-01-03T00:00:00.000Z''\<rparr>,
           \<lparr>sum_id = ''1'', sum_title = ''New Chat'', sum_updatedAt = ''2024-01-01T00:00:00.000Z''\<rparr>,
           \<lparr>sum_id = ''3'', sum_title = ''Parsing'', sum_updatedAt = ''2024-01-01T00:00:00.000Z''\<rparr>],
      snd (listSummaries example_date disk3))"
    by (simp add: listSummaries_def load_disk3 store3_def conv1_def conv2_def conv3_def
        summarise_def Array_sort_def by_updatedAt_desc_def example_date_def)
  with S show ?thesis by simp
qed

text \<open>
  Claim C4 (as amended). The id of a created conversation is the decimal text of the
  reading of \<open>Date.now()\<close> at the request, and different readings give different
  texts. So in every run of create requests every request is answered with a
  conversation, and the ids answered are pairwise distinct exactly when the readings of
  the clock are pairwise distinct.
\<close>

theorem C4_create_ids:
  assumes "load_store f = Some d"
  shows "\<exists>cs. fst (create_seq f ts) = map Inr cs \<and>
              length cs = length ts \<and>
              map id_c cs = map (\<lambda>t. toString (fst t)) ts \<and>
              (distinct (map id_c cs) \<longleftrightarrow> distinct (map fst ts))"
proof -
  from create_seq_ids [OF assms, of ts]
  obtain cs where cs: "fst (create_seq f ts) = map Inr cs"
    "map id_c cs = map (\<lambda>t. toString (fst t)) ts" by blast
  have "map (\<lambda>t. toString (fst t)) ts = map toString (map fst ts)" by simp
  then have "distinct (map (\<lambda>t. toString (fst t)) ts) \<longleftrightarrow> distinct (map fst ts)"
    using distinct_map [of toString "map fst ts"] inj_toString
    by (metis inj_on_subset subset_UNIV)
  moreover have "length cs = length ts" using cs(2) by (metis length_map)
  ultimately show ?thesis using cs by auto
qed

theorem C4_create_ids_witness:
  "\<exists>cs. fst (create_seq disk1 [(1700000000000, ''2023-11-14T22:13:20.000Z'', ''2023-11-14T22:13:20.000Z''),
                                (1700000000001, ''2023-11-14T22:13:20.001Z'', ''2023-11-14T22:13:20.001Z'')]) =
          map Inr cs \<and> length cs = 2 \<and> distinct (map id_c cs)"
  using C4_create_ids [OF load_disk1,
      of "[(1700000000000, ''2023-11-14T22:13:20.000Z'', ''2023-11-14T22:13:20.000Z''),
           (1700000000001, ''2023-11-14T22:13:20.001Z'', ''2023-11-14T22:13:20.001Z'')]"]
  by auto

text \<open>
  The claim as stated fails for two create requests served at the same reading of the
  clock: both conversations are answered with the same id, and both are in the store.
\<close>

theorem C4_counterexample:
  "createConversation disk0 1700000000000
     ''2023-11-14T22:13:20.000Z'' ''2023-11-14T22:13:20.000Z'' =
     (Inr twin_a, save_store disk0 \<lparr>conversations = [twin_a]\<rparr>) \<and>
   createConversation (save_store disk0 \<lparr>conversations = [twin_a]\<rparr>) 1700000000000
     ''2023-11-14T22:13:20.000Z'' ''2023-11-14T22:13:20.000Z'' =
     (Inr twin_b, save_store (save_store disk0 \<lparr>conversations = [twin_a]\<rparr>)
                    \<lparr>conversations = [twin_a, twin_b]\<rparr>) \<and>
   id_c twin_a = id_c twin_b \<and>
   fst (create_seq disk0
          [(1700000000000, ''2023-11-14T22:13:20.000Z'', ''2023-11-14T22:13:20.000Z''),
           (1700000000000, ''2023-11-14T22:13:20.000Z'', ''2023-11-14T22:13:20.000Z'')]) =
     [Inr twin_a, Inr twin_b] \<and>
   \<not> distinct (map id_c [twin_a, twin_b])"
  by (simp add: create_answers [OF load_disk0] create_answers [OF load_save_store]
      toString_example twin_a_def twin_b_def)

end
